theory Spec2Isabelle
  imports Main "HOL-Library.Sublist"
begin

section \<open>Type terms\<close>

text \<open>
  The type checker of \<^verbatim>\<open>src/typeChecker/typeChecker.ts\<close>. A type term is a tagged
  union (\<^verbatim>\<open>kind\<close> is the tag). A \<^verbatim>\<open>Variable\<close> is a JavaScript object
  \<^verbatim>\<open>{kind: 'variable', name, constraint}\<close>: the code compares variables by reference
  (\<^verbatim>\<open>LHS === RHS.tailType\<close>) and assigns to their \<^verbatim>\<open>constraint\<close> field
  (\<^verbatim>\<open>RHS.constraint = LHS.constraint\<close>), so variable objects live in a heap and a type
  term refers to one by its address. The other terms are never mutated and never compared
  by reference with anything but a variable, so they are plain values.
\<close>

datatype prim = PBoolean | PNumber | PString | PUndefined

datatype constraintKind = NoneK | AddableK

record variable =
  name :: string
  constraint :: constraintKind

datatype ty =
    isPrimitive: TPrimitive (pname: prim)
  | isVariable: TVar (addr: nat)
  | isFunction: TFunc (parameterTypes: "ty list") (returnType: ty)
  | isPair: TPair (headType: ty) (tailType: ty)
  | isList: TList (elementType: ty)
  | isArray: TArray (elementType: ty)

text \<open>An entry of \<^verbatim>\<open>env.typeMap\<close>: \<^verbatim>\<open>Type | ForAll\<close>.\<close>

datatype envType = Mono ty | ForAll (polyType: ty)

definition tBool :: ty where "tBool = TPrimitive PBoolean"
definition tNumber :: ty where "tNumber = TPrimitive PNumber"
definition tString :: ty where "tString = TPrimitive PString"
definition tUndef :: ty where "tUndef = TPrimitive PUndefined"

text \<open>\<^verbatim>\<open>tFunc(...types)\<close>: the last type is the return type, the others the parameters.
  Every call in the source passes at least one type.\<close>

definition tFunc :: "ty list \<Rightarrow> ty" where
  "tFunc types = TFunc (butlast types) (last types)"

definition getListType :: "ty \<Rightarrow> ty option" where
  "getListType t = (if isList t then Some (elementType t) else None)"

section \<open>Errors thrown inside the checker\<close>

text \<open>
  The classes of \<^verbatim>\<open>internalTypeErrors.ts\<close> that the checker throws, and the two
  JavaScript run-time errors it can raise: \<^verbatim>\<open>Error('Unexpected literal type')\<close> and
  the engine's own error on reading a property of \<^verbatim>\<open>undefined\<close> or \<^verbatim>\<open>null\<close>.
  The one \<^verbatim>\<open>InternalTypeError\<close> the checker constructs has the message
  \<^verbatim>\<open>Expected ${objName} to be an array, got ${typeToString(arrayType)}\<close>; it is kept
  as the two values the message is made of.
\<close>

datatype error =
    UnifyError (LHS: ty) (RHS: ty)
  | InternalDifferentNumberArgumentsError (numExpectedArgs: nat) (numReceived: nat)
  | InternalCyclicReferenceError string
  | InternalTypeError "string option" ty
  | JSError string
  | JSPropertyOfUndefined

text \<open>A computation returns, throws, or runs out of the fuel that bounds its recursion.\<close>

datatype 'a result = Ok 'a | Throw error | OutOfFuel

section \<open>The syntax tree\<close>

datatype typability = Untypable | NotYetTyped | Typed

record annot =
  inferredType :: "ty option"
  typability :: typability

datatype literalValue = LNull | LNumber int | LBoolean bool | LString string | LRegExp

text \<open>
  The node kinds the checker distinguishes; every node carries its annotation. A function
  declaration carries \<^verbatim>\<open>functionInferredType\<close> too, and its \<^verbatim>\<open>id\<close> as the name or
  \<^verbatim>\<open>null\<close>. A variable declaration has a kind (\<^verbatim>\<open>const\<close>, \<^verbatim>\<open>let\<close>, \<^verbatim>\<open>var\<close>)
  and its declarators, each an \<^verbatim>\<open>id\<close> and an \<^verbatim>\<open>init\<close>. The fields the source asserts
  to be present (\<^verbatim>\<open>node.init!\<close>, \<^verbatim>\<open>node.argument!\<close>, \<^verbatim>\<open>node.alternate!\<close>) are
  present in the type. A diagnostic holds the node as it is when the diagnostic is recorded.
\<close>

datatype node =
    Program annot "node list"
  | UnaryExpression annot string node
  | BinaryExpression annot string node node
  | LogicalExpression annot string node node
  | ExpressionStatement annot node
  | BlockStatement annot "node list"
  | WhileStatement annot node node
  | ForStatement annot node node node node
  | ConditionalExpression annot node node node
  | IfStatement annot node node node
  | CallExpression annot node "node list"
  | ReturnStatement annot node
  | VariableDeclaration annot string "(node \<times> node) list"
  | ArrowFunctionExpression annot "node list" node
  | FunctionDeclaration annot "ty option" "string option" "node list" node
  | AssignmentExpression annot node node
  | ArrayExpression annot "node list"
  | MemberExpression annot node node
  | Literal annot literalValue
  | Identifier annot string
  | OtherNode annot string

text \<open>The diagnostics of \<^verbatim>\<open>errors/typeErrors.ts\<close>, and \<^verbatim>\<open>TypeError(node, e)\<close>.
  A list of expected types is \<^verbatim>\<open>undefined\<close> when it is read off a term that is not a
  function.\<close>

datatype diag =
    InvalidArgumentTypesError node "node list" "ty list option" "ty list"
  | DifferentNumberArgumentsError node nat nat
  | InvalidTestConditionError node ty
  | ConsequentAlternateMismatchError node ty ty
  | CyclicReferenceError node
  | ReassignConstError node
  | DifferentAssignmentError node ty ty
  | ArrayAssignmentError node ty ty
  | InvalidArrayIndexType node ty
  | UndefinedIdentifierError node string
  | TypeError node error

section \<open>State\<close>

text \<open>
  \<^verbatim>\<open>vars\<close> is the heap of variable objects, \<^verbatim>\<open>constraints\<close> the constraint array
  (mutated in place by \<^verbatim>\<open>push\<close>, each entry a variable and a type), \<^verbatim>\<open>typeIdCounter\<close>
  and \<^verbatim>\<open>typeErrors\<close> the two module-level variables.
\<close>

record state =
  vars :: "variable list"
  constraints :: "(nat \<times> ty) list"
  typeIdCounter :: nat
  typeErrors :: "diag list"

definition andThen ::
  "state \<times> 'a result \<Rightarrow> (state \<Rightarrow> 'a \<Rightarrow> state \<times> 'b result) \<Rightarrow> state \<times> 'b result" where
  "andThen m f = (case m of
      (s, Ok x) \<Rightarrow> f s x
    | (s, Throw e) \<Rightarrow> (s, Throw e)
    | (s, OutOfFuel) \<Rightarrow> (s, OutOfFuel))"

text \<open>\<^verbatim>\<open>try { m } catch (e) { h }\<close>: the handler sees the state as the throw left it.\<close>

definition tryCatch ::
  "state \<times> 'a result \<Rightarrow> (state \<Rightarrow> error \<Rightarrow> state \<times> 'a result) \<Rightarrow> state \<times> 'a result" where
  "tryCatch m h = (case m of
      (s, Throw e) \<Rightarrow> h s e
    | (s, Ok x) \<Rightarrow> (s, Ok x)
    | (s, OutOfFuel) \<Rightarrow> (s, OutOfFuel))"

text \<open>\<^verbatim>\<open>xs.map(f)\<close> and \<^verbatim>\<open>xs.forEach(f)\<close> with a callback that changes the state
  and may throw.\<close>

fun mapM :: "(state \<Rightarrow> 'a \<Rightarrow> state \<times> 'b result) \<Rightarrow> state \<Rightarrow> 'a list \<Rightarrow> state \<times> 'b list result" where
  "mapM f s [] = (s, Ok [])"
| "mapM f s (x # xs) =
     andThen (f s x) (\<lambda>s1 y. andThen (mapM f s1 xs) (\<lambda>s2 ys. (s2, Ok (y # ys))))"

fun forEachM :: "(state \<Rightarrow> 'a \<Rightarrow> state \<times> unit result) \<Rightarrow> state \<Rightarrow> 'a list \<Rightarrow> state \<times> unit result" where
  "forEachM f s [] = (s, Ok ())"
| "forEachM f s (x # xs) = andThen (f s x) (\<lambda>s1 _. forEachM f s1 xs)"

section \<open>The constraint store and the unifier\<close>

fun contains :: "variable list \<Rightarrow> ty \<Rightarrow> string \<Rightarrow> bool" where
  "contains h (TPrimitive p) nm = False"
| "contains h (TPair t1 t2) nm = (contains h t1 nm \<or> contains h t2 nm)"
| "contains h (TArray e) nm = contains h e nm"
| "contains h (TList e) nm = contains h e nm"
| "contains h (TVar a) nm = (name (h ! a) = nm)"
| "contains h (TFunc ps r) nm = (list_ex (\<lambda>t. contains h t nm) ps \<or> contains h r nm)"

definition cannotBeResolvedIfAddable :: "variable list \<Rightarrow> nat \<Rightarrow> ty \<Rightarrow> bool" where
  "cannotBeResolvedIfAddable h l r =
     (constraint (h ! l) = AddableK \<and> \<not> isVariable r \<and>
      \<not> (isPrimitive r \<and> (pname r = PString \<or> pname r = PNumber)))"

text \<open>The first entry of the array whose left variable has the given name: the
  \<^verbatim>\<open>for (const constraint of constraints)\<close> loops return at the first match.\<close>

definition firstWithName :: "variable list \<Rightarrow> (nat \<times> ty) list \<Rightarrow> string \<Rightarrow> (nat \<times> ty) option" where
  "firstWithName h cs nm = find (\<lambda>c. name (h ! fst c) = nm) cs"

function (sequential) addToConstraintList :: "nat \<Rightarrow> state \<Rightarrow> ty \<Rightarrow> ty \<Rightarrow> state \<times> unit result"
and occursOnLeftInConstraintList :: "nat \<Rightarrow> state \<Rightarrow> nat \<Rightarrow> ty \<Rightarrow> state \<times> unit result"
and applyConstraints :: "nat \<Rightarrow> state \<Rightarrow> ty \<Rightarrow> state \<times> ty result"
and applyConstraints_inner :: "nat \<Rightarrow> state \<Rightarrow> ty \<Rightarrow> state \<times> ty result"
where
  "addToConstraintList 0 s l r = (s, OutOfFuel)"
| "addToConstraintList (Suc n) s l r =
    (if isPrimitive l \<and> isPrimitive r \<and> pname l = pname r then (s, Ok ())
     else if isArray l \<and> isArray r then addToConstraintList n s (elementType l) (elementType r)
     else if isList l \<and> isList r then addToConstraintList n s (elementType l) (elementType r)
     else if isPair l \<and> isList r then addToConstraintList n s r l
     else if isList l \<and> isPair r then addToConstraintList n s r (TPair (elementType l) l)
     else if isPair l \<and> isPair r then
       andThen (addToConstraintList n s (headType l) (headType r))
         (\<lambda>s1 _. addToConstraintList n s1 (tailType l) (tailType r))
     else if isVariable l then
       (if isVariable r \<and> name (vars s ! addr r) = name (vars s ! addr l) then (s, Ok ())
        else if contains (vars s) r (name (vars s ! addr l)) then
          (if isPair r \<and> (l = tailType r \<or> Some l = getListType (tailType r)) then
             addToConstraintList n s l (TList (headType r))
           else if Some l = getListType r then
             (s\<lparr>constraints := constraints s @ [(addr l, r)]\<rparr>, Ok ())
           else (s, Throw (InternalCyclicReferenceError (name (vars s ! addr l)))))
        else if cannotBeResolvedIfAddable (vars s) (addr l) r then (s, Throw (UnifyError l r))
        else andThen (applyConstraints n s r)
               (\<lambda>s1 r'. occursOnLeftInConstraintList n s1 (addr l) r'))
     else if isVariable r then addToConstraintList n s r l
     else if isFunction l \<and> isFunction r then
       (if length (parameterTypes l) \<noteq> length (parameterTypes r) then
          (s, Throw (InternalDifferentNumberArgumentsError
                       (length (parameterTypes r)) (length (parameterTypes l))))
        else andThen (forEachM (\<lambda>s1 p. addToConstraintList n s1 (fst p) (snd p)) s
                        (zip (parameterTypes l) (parameterTypes r)))
               (\<lambda>s2 _. addToConstraintList n s2 (returnType l) (returnType r)))
     else (s, Throw (UnifyError l r)))"
| "occursOnLeftInConstraintList 0 s a r = (s, OutOfFuel)"
| "occursOnLeftInConstraintList (Suc n) s a r =
    (case firstWithName (vars s) (constraints s) (name (vars s ! a)) of
       Some c \<Rightarrow> addToConstraintList n s r (snd c)
     | None \<Rightarrow>
        (let s1 = (if isVariable r \<and> constraint (vars s ! a) = AddableK
                      \<and> constraint (vars s ! addr r) = NoneK
                   then s\<lparr>vars := (vars s)[addr r := (vars s ! addr r)\<lparr>constraint := AddableK\<rparr>]\<rparr>
                   else s);
             s2 = (if TVar a \<noteq> r then s1\<lparr>constraints := constraints s1 @ [(a, r)]\<rparr> else s1)
         in (s2, Ok ())))"
| "applyConstraints 0 s t = (s, OutOfFuel)"
| "applyConstraints (Suc n) s t =
    andThen (applyConstraints_inner n s t) (\<lambda>s1 result.
      if isList result then (s1, Ok (TPair (elementType result) result))
      else if isPair result \<and> isPair (tailType result)
              \<and> getListType (tailType (tailType result)) \<noteq> None then
        andThen (addToConstraintList n s1 (headType (tailType result))
                   (elementType (tailType (tailType result))))
          (\<lambda>s2 _. andThen (addToConstraintList n s2 (headType (tailType result)) (headType result))
          (\<lambda>s3 _. applyConstraints_inner n s3 (tailType result)))
      else (s1, Ok result))"
| "applyConstraints_inner 0 s t = (s, OutOfFuel)"
| "applyConstraints_inner (Suc n) s t =
    (case t of
       TPrimitive p \<Rightarrow> (s, Ok t)
     | TPair t1 t2 \<Rightarrow>
         andThen (applyConstraints_inner n s t1) (\<lambda>s1 t1'.
         andThen (applyConstraints_inner n s1 t2) (\<lambda>s2 t2'. (s2, Ok (TPair t1' t2'))))
     | TList e \<Rightarrow> andThen (applyConstraints_inner n s e) (\<lambda>s1 e'. (s1, Ok (TList e')))
     | TArray e \<Rightarrow> andThen (applyConstraints_inner n s e) (\<lambda>s1 e'. (s1, Ok (TArray e')))
     | TVar a \<Rightarrow>
         (case firstWithName (vars s) (constraints s) (name (vars s ! a)) of
            None \<Rightarrow> (s, Ok t)
          | Some c \<Rightarrow>
              if contains (vars s) (snd c) (name (vars s ! fst c)) then
                (if isPair (snd c) \<and> TVar (fst c) = tailType (snd c) then
                   (s, Ok (TList (headType (snd c))))
                 else if Some (TVar (fst c)) = getListType (snd c) then
                   (s, Ok (TList (TVar (fst c))))
                 else (s, Throw (InternalCyclicReferenceError (name (vars s ! a)))))
              else applyConstraints n s (snd c))
     | TFunc ps r \<Rightarrow>
         andThen (mapM (applyConstraints n) s ps) (\<lambda>s1 ps'.
         andThen (applyConstraints n s1 r) (\<lambda>s2 r'. (s2, Ok (TFunc ps' r')))))"
  by pat_completeness auto

termination
  by (relation "measure (\<lambda>x. case x of
        Inl (Inl (n, _)) \<Rightarrow> n | Inl (Inr (n, _)) \<Rightarrow> n
      | Inr (Inl (n, _)) \<Rightarrow> n | Inr (Inr (n, _)) \<Rightarrow> n)") simp_all



section \<open>Fresh variables and instantiation\<close>

text \<open>\<^verbatim>\<open>`T${n}`\<close>: the decimal digits of the counter after the letter T.\<close>

function stringOfNat :: "nat \<Rightarrow> string" where
  "stringOfNat n =
     (if n < 10 then [''0123456789'' ! n]
      else stringOfNat (n div 10) @ [''0123456789'' ! (n mod 10)])"
  by pat_completeness auto
termination
  by (relation "measure id") auto

text \<open>Allocation of a variable object: its address is the next free one.\<close>

definition alloc :: "state \<Rightarrow> variable \<Rightarrow> state \<times> nat" where
  "alloc s v = (s\<lparr>vars := vars s @ [v]\<rparr>, length (vars s))"

text \<open>\<^verbatim>\<open>tVar(typeIdCounter)\<close> followed by \<^verbatim>\<open>typeIdCounter++\<close>, as in
  \<^verbatim>\<open>tVar(typeIdCounter++)\<close>.\<close>

definition tVarNext :: "state \<Rightarrow> state \<times> ty" where
  "tVarNext s =
     (let (s1, a) = alloc s \<lparr>name = ''T'' @ stringOfNat (typeIdCounter s), constraint = NoneK\<rparr>
      in (s1\<lparr>typeIdCounter := typeIdCounter s1 + 1\<rparr>, TVar a))"

text \<open>\<^verbatim>\<open>freshTypeVar(typeVar)\<close>: a copy of the object with the next name.\<close>

definition freshTypeVar :: "state \<Rightarrow> nat \<Rightarrow> state \<times> nat" where
  "freshTypeVar s a =
     (let (s1, b) = alloc s ((vars s ! a)\<lparr>name := ''T'' @ stringOfNat (typeIdCounter s)\<rparr>)
      in (s1\<lparr>typeIdCounter := typeIdCounter s1 + 1\<rparr>, b))"

text \<open>\<^verbatim>\<open>union(a, b)\<close> keeps the first object of every name.\<close>

definition union :: "variable list \<Rightarrow> nat list \<Rightarrow> nat list \<Rightarrow> nat list" where
  "union h a b =
     foldl (\<lambda>sum newVal.
        if list_ex (\<lambda>val. name (h ! val) = name (h ! newVal)) sum then sum else sum @ [newVal]) a b"

fun freeTypeVarsInType :: "variable list \<Rightarrow> ty \<Rightarrow> nat list" where
  "freeTypeVarsInType h (TPrimitive p) = []"
| "freeTypeVarsInType h (TList e) = freeTypeVarsInType h e"
| "freeTypeVarsInType h (TArray e) = freeTypeVarsInType h e"
| "freeTypeVarsInType h (TPair t1 t2) = union h (freeTypeVarsInType h t1) (freeTypeVarsInType h t2)"
| "freeTypeVarsInType h (TVar a) = [a]"
| "freeTypeVarsInType h (TFunc ps r) =
     union h (foldl (\<lambda>acc currentType. union h acc (freeTypeVarsInType h currentType)) [] ps)
             (freeTypeVarsInType h r)"

text \<open>\<^verbatim>\<open>fresh(monoType, subst)\<close>. The substitution is built from the free variables of the
  same type, so the lookup of a name is always defined; the model leaves a variable whose
  name is missing as it is.\<close>

fun fresh :: "variable list \<Rightarrow> ty \<Rightarrow> (string \<times> nat) list \<Rightarrow> ty" where
  "fresh h (TPrimitive p) subst = TPrimitive p"
| "fresh h (TList e) subst = TList (fresh h e subst)"
| "fresh h (TArray e) subst = TArray (fresh h e subst)"
| "fresh h (TPair t1 t2) subst = TPair (fresh h t1 subst) (fresh h t2 subst)"
| "fresh h (TVar a) subst = (case map_of subst (name (h ! a)) of Some b \<Rightarrow> TVar b | None \<Rightarrow> TVar a)"
| "fresh h (TFunc ps r) subst = TFunc (map (\<lambda>argType. fresh h argType subst) ps) (fresh h r subst)"

text \<open>\<^verbatim>\<open>substitutions[val.name] = freshTypeVar(val)\<close> for each free variable in turn.\<close>

fun genFresh :: "state \<Rightarrow> nat list \<Rightarrow> state \<times> (string \<times> nat) list" where
  "genFresh s [] = (s, [])"
| "genFresh s (v # vs) =
     (let (s1, b) = freshTypeVar s v; (s2, rest) = genFresh s1 vs
      in (s2, (name (vars s ! v), b) # rest))"

definition extractFreeVariablesAndGenFresh :: "state \<Rightarrow> ty \<Rightarrow> state \<times> ty" where
  "extractFreeVariablesAndGenFresh s monoType =
     (let (s1, substitutions) = genFresh s (freeTypeVarsInType (vars s) monoType)
      in (s1, fresh (vars s1) monoType substitutions))"


section \<open>Decoration and resolution: \<^verbatim>\<open>traverse\<close>\<close>

fun annotOf :: "node \<Rightarrow> annot" where
  "annotOf (Program a body) = a"
| "annotOf (UnaryExpression a op arg) = a"
| "annotOf (BinaryExpression a op l r) = a"
| "annotOf (LogicalExpression a op l r) = a"
| "annotOf (ExpressionStatement a e) = a"
| "annotOf (BlockStatement a body) = a"
| "annotOf (WhileStatement a t b) = a"
| "annotOf (ForStatement a i t u b) = a"
| "annotOf (ConditionalExpression a t c e) = a"
| "annotOf (IfStatement a t c e) = a"
| "annotOf (CallExpression a f args) = a"
| "annotOf (ReturnStatement a arg) = a"
| "annotOf (VariableDeclaration a k ds) = a"
| "annotOf (ArrowFunctionExpression a ps b) = a"
| "annotOf (FunctionDeclaration a ft nm ps b) = a"
| "annotOf (AssignmentExpression a l r) = a"
| "annotOf (ArrayExpression a es) = a"
| "annotOf (MemberExpression a ob pr) = a"
| "annotOf (Literal a v) = a"
| "annotOf (Identifier a nm) = a"
| "annotOf (OtherNode a k) = a"

definition typeOf :: "node \<Rightarrow> ty option" where
  "typeOf node = inferredType (annotOf node)"

definition pushError :: "state \<Rightarrow> diag \<Rightarrow> state" where
  "pushError s d = s\<lparr>typeErrors := typeErrors s @ [d]\<rparr>"

text \<open>Modelled from the spec: \<^verbatim>\<open>internalTypeErrors.ts\<close> is not among the sources, so
  which errors are instances of \<^verbatim>\<open>InternalTypeError\<close> follows the spec's list of internal
  errors (UnifyError, ArityError, CyclicError, generic InternalTypeError); the engine's own
  errors are not.\<close>

fun isInternalTypeError :: "error \<Rightarrow> bool" where
  "isInternalTypeError (UnifyError l r) = True"
| "isInternalTypeError (InternalDifferentNumberArgumentsError e r) = True"
| "isInternalTypeError (InternalCyclicReferenceError nm) = True"
| "isInternalTypeError (InternalTypeError ob t) = True"
| "isInternalTypeError (JSError m) = False"
| "isInternalTypeError JSPropertyOfUndefined = False"

fun isCyclic :: "error \<Rightarrow> bool" where
  "isCyclic (InternalCyclicReferenceError nm) = True"
| "isCyclic e = False"

text \<open>\<^verbatim>\<open>applyConstraints\<close> on an annotation: reading \<^verbatim>\<open>type.kind\<close> of an annotation
  that is not set is the engine's error.\<close>

definition applyType :: "nat \<Rightarrow> state \<Rightarrow> ty option \<Rightarrow> state \<times> ty result" where
  "applyType n s t = (case t of
      None \<Rightarrow> (s, Throw JSPropertyOfUndefined)
    | Some t' \<Rightarrow> applyConstraints n s t')"

text \<open>
  The first statement of \<^verbatim>\<open>traverse\<close>, on the node itself. With the constraints
  (\<open>resolve\<close>) and a node that is not \<^verbatim>\<open>Untypable\<close>, the annotation is replaced by the
  applied type and marked \<^verbatim>\<open>Typed\<close>; an error leaves the annotation as it is, and is
  recorded unless it is a cyclic reference or not an internal error. Otherwise the node
  gets the next variable. The result is the node's new annotation.
\<close>

definition traverseHead :: "nat \<Rightarrow> bool \<Rightarrow> state \<Rightarrow> node \<Rightarrow> state \<times> annot result" where
  "traverseHead n resolve s node =
     (if resolve \<and> typability (annotOf node) \<noteq> Untypable then
        (case applyType n s (typeOf node) of
           (s1, Ok t) \<Rightarrow> (s1, Ok ((annotOf node)\<lparr>inferredType := Some t, typability := Typed\<rparr>))
         | (s1, Throw e) \<Rightarrow>
             (if isInternalTypeError e \<and> \<not> isCyclic e
              then (pushError s1 (TypeError node e), Ok (annotOf node))
              else (s1, Ok (annotOf node)))
         | (s1, OutOfFuel) \<Rightarrow> (s1, OutOfFuel))
      else
        (let (s1, t) = tVarNext s in (s1, Ok ((annotOf node)\<lparr>inferredType := Some t\<rparr>))))"

text \<open>The \<^verbatim>\<open>FunctionDeclaration\<close> case, on \<^verbatim>\<open>functionInferredType\<close>; the counter is
  incremented in both passes.\<close>

definition traverseFunctionType ::
  "nat \<Rightarrow> bool \<Rightarrow> state \<Rightarrow> node \<Rightarrow> ty option \<Rightarrow> state \<times> ty option result" where
  "traverseFunctionType n resolve s node ft =
     (case (if resolve then
              (case applyType n s ft of
                 (s1, Ok t) \<Rightarrow> (s1, Ok (Some t))
               | (s1, Throw e) \<Rightarrow>
                   (if isCyclic e then (pushError s1 (CyclicReferenceError node), Ok ft)
                    else if isInternalTypeError e then (pushError s1 (TypeError node e), Ok ft)
                    else (s1, Ok ft))
               | (s1, OutOfFuel) \<Rightarrow> (s1, OutOfFuel))
            else
              (let (s1, a) = alloc s \<lparr>name = ''T'' @ stringOfNat (typeIdCounter s), constraint = NoneK\<rparr>
               in (s1, Ok (Some (TVar a))))) of
        (s2, Ok ft') \<Rightarrow> (s2\<lparr>typeIdCounter := typeIdCounter s2 + 1\<rparr>, Ok ft')
      | other \<Rightarrow> other)"

function traverse :: "nat \<Rightarrow> bool \<Rightarrow> state \<Rightarrow> node \<Rightarrow> state \<times> node result" where
  "traverse 0 resolve s node = (s, OutOfFuel)"
| "traverse (Suc n) resolve s node =
    andThen (traverseHead n resolve s node) (\<lambda>s1 a'.
      case node of
        Program a body \<Rightarrow>
          andThen (mapM (traverse n resolve) s1 body) (\<lambda>s2 body'. (s2, Ok (Program a' body')))
      | UnaryExpression a op arg \<Rightarrow>
          andThen (traverse n resolve s1 arg) (\<lambda>s2 arg'. (s2, Ok (UnaryExpression a' op arg')))
      | LogicalExpression a op l r \<Rightarrow>
          andThen (traverse n resolve s1 l) (\<lambda>s2 l'.
          andThen (traverse n resolve s2 r) (\<lambda>s3 r'. (s3, Ok (LogicalExpression a' op l' r'))))
      | BinaryExpression a op l r \<Rightarrow>
          andThen (traverse n resolve s1 l) (\<lambda>s2 l'.
          andThen (traverse n resolve s2 r) (\<lambda>s3 r'. (s3, Ok (BinaryExpression a' op l' r'))))
      | ExpressionStatement a e \<Rightarrow>
          andThen (traverse n resolve s1 e) (\<lambda>s2 e'. (s2, Ok (ExpressionStatement a' e')))
      | BlockStatement a body \<Rightarrow>
          andThen (mapM (traverse n resolve) s1 body) (\<lambda>s2 body'. (s2, Ok (BlockStatement a' body')))
      | WhileStatement a t b \<Rightarrow>
          andThen (traverse n resolve s1 t) (\<lambda>s2 t'.
          andThen (traverse n resolve s2 b) (\<lambda>s3 b'. (s3, Ok (WhileStatement a' t' b'))))
      | ForStatement a i t u b \<Rightarrow>
          andThen (traverse n resolve s1 i) (\<lambda>s2 i'.
          andThen (traverse n resolve s2 t) (\<lambda>s3 t'.
          andThen (traverse n resolve s3 u) (\<lambda>s4 u'.
          andThen (traverse n resolve s4 b) (\<lambda>s5 b'. (s5, Ok (ForStatement a' i' t' u' b'))))))
      | ConditionalExpression a t c e \<Rightarrow>
          andThen (traverse n resolve s1 t) (\<lambda>s2 t'.
          andThen (traverse n resolve s2 c) (\<lambda>s3 c'.
          andThen (traverse n resolve s3 e) (\<lambda>s4 e'. (s4, Ok (ConditionalExpression a' t' c' e')))))
      | IfStatement a t c e \<Rightarrow>
          andThen (traverse n resolve s1 t) (\<lambda>s2 t'.
          andThen (traverse n resolve s2 c) (\<lambda>s3 c'.
          andThen (traverse n resolve s3 e) (\<lambda>s4 e'. (s4, Ok (IfStatement a' t' c' e')))))
      | CallExpression a f args \<Rightarrow>
          andThen (traverse n resolve s1 f) (\<lambda>s2 f'.
          andThen (mapM (traverse n resolve) s2 args) (\<lambda>s3 args'. (s3, Ok (CallExpression a' f' args'))))
      | ReturnStatement a arg \<Rightarrow>
          andThen (traverse n resolve s1 arg) (\<lambda>s2 arg'. (s2, Ok (ReturnStatement a' arg')))
      | VariableDeclaration a k ds \<Rightarrow>
          (case ds of
             [] \<Rightarrow> (s1, Throw JSPropertyOfUndefined)
           | d # rest \<Rightarrow>
               andThen (traverse n resolve s1 (snd d)) (\<lambda>s2 init'.
                 (s2, Ok (VariableDeclaration a' k ((fst d, init') # rest)))))
      | ArrowFunctionExpression a ps b \<Rightarrow>
          andThen (mapM (traverse n resolve) s1 ps) (\<lambda>s2 ps'.
          andThen (traverse n resolve s2 b) (\<lambda>s3 b'. (s3, Ok (ArrowFunctionExpression a' ps' b'))))
      | FunctionDeclaration a ft nm ps b \<Rightarrow>
          andThen (traverseFunctionType n resolve s1 node ft) (\<lambda>s2 ft'.
          andThen (mapM (traverse n resolve) s2 ps) (\<lambda>s3 ps'.
          andThen (traverse n resolve s3 b) (\<lambda>s4 b'. (s4, Ok (FunctionDeclaration a' ft' nm ps' b')))))
      | AssignmentExpression a l r \<Rightarrow>
          andThen (traverse n resolve s1 l) (\<lambda>s2 l'.
          andThen (traverse n resolve s2 r) (\<lambda>s3 r'. (s3, Ok (AssignmentExpression a' l' r'))))
      | ArrayExpression a es \<Rightarrow>
          andThen (mapM (traverse n resolve) s1 es) (\<lambda>s2 es'. (s2, Ok (ArrayExpression a' es')))
      | MemberExpression a ob pr \<Rightarrow>
          andThen (traverse n resolve s1 ob) (\<lambda>s2 ob'.
          andThen (traverse n resolve s2 pr) (\<lambda>s3 pr'. (s3, Ok (MemberExpression a' ob' pr'))))
      | Literal a v \<Rightarrow> (s1, Ok (Literal a' v))
      | Identifier a nm \<Rightarrow> (s1, Ok (Identifier a' nm))
      | OtherNode a k \<Rightarrow> (s1, Ok (OtherNode a' k)))"
  by pat_completeness auto
termination
  by (relation "measure (\<lambda>(n, _). n)") simp_all


section \<open>Constraint emission: \<^verbatim>\<open>infer\<close>\<close>

text \<open>An environment: \<^verbatim>\<open>typeMap\<close> and \<^verbatim>\<open>declKindMap\<close>. A key is a \<^verbatim>\<open>name\<close>
  property, which is \<^verbatim>\<open>undefined\<close> (\<open>None\<close>) on a node that is not an identifier.
  \<^verbatim>\<open>cloneEnv\<close> copies the two maps, and only a copy is ever changed, so environments
  are values.\<close>

record env =
  typeMap :: "string option \<rightharpoonup> envType"
  declKindMap :: "string option \<rightharpoonup> string"

definition NEGATIVE_OP :: string where
  "NEGATIVE_OP = ''-_1''"

fun nodeName :: "node \<Rightarrow> string option" where
  "nodeName (Identifier a nm) = Some nm"
| "nodeName node = None"

fun isIdentifier :: "node \<Rightarrow> bool" where
  "isIdentifier (Identifier a nm) = True"
| "isIdentifier node = False"

fun isDeclaration :: "node \<Rightarrow> bool" where
  "isDeclaration (FunctionDeclaration a ft nm ps b) = True"
| "isDeclaration (VariableDeclaration a k ds) = True"
| "isDeclaration node = False"

fun statementHasReturn :: "node \<Rightarrow> bool" where
  "statementHasReturn (IfStatement a t c e) = (statementHasReturn c \<or> statementHasReturn e)"
| "statementHasReturn (BlockStatement a body) = list_ex statementHasReturn body"
| "statementHasReturn (ForStatement a i t u b) = statementHasReturn b"
| "statementHasReturn (WhileStatement a t b) = statementHasReturn b"
| "statementHasReturn (ReturnStatement a arg) = True"
| "statementHasReturn node = False"

fun stmtHasValueReturningStmt :: "node \<Rightarrow> bool" where
  "stmtHasValueReturningStmt (ExpressionStatement a e) = True"
| "stmtHasValueReturningStmt (IfStatement a t c e) =
     (stmtHasValueReturningStmt c \<or> stmtHasValueReturningStmt e)"
| "stmtHasValueReturningStmt (BlockStatement a body) = list_ex stmtHasValueReturningStmt body"
| "stmtHasValueReturningStmt (ForStatement a i t u b) = stmtHasValueReturningStmt b"
| "stmtHasValueReturningStmt (WhileStatement a t b) = stmtHasValueReturningStmt b"
| "stmtHasValueReturningStmt node = False"

text \<open>The index is \<open>-1\<close> for an empty body, as \<^verbatim>\<open>findIndex\<close> and
  \<^verbatim>\<open>node.body.length - 1\<close> give it.\<close>

definition returnBlockValueNodeIndexFor :: "node list \<Rightarrow> bool \<Rightarrow> int" where
  "returnBlockValueNodeIndexFor body isTopLevelAndLastValStmt =
     (let lastStatementIndex = int (length body) - 1 in
      if isTopLevelAndLastValStmt then
        (case filter (\<lambda>i. stmtHasValueReturningStmt (body ! i)) (rev [0..<length body]) of
           [] \<Rightarrow> lastStatementIndex
         | i # _ \<Rightarrow> int i)
      else
        (case find (\<lambda>i. int i = lastStatementIndex \<or> statementHasReturn (body ! i))
                [0..<length body] of
           None \<Rightarrow> - 1
         | Some i \<Rightarrow> int i))"

text \<open>
  \<^verbatim>\<open>infer\<close> runs only from \<^verbatim>\<open>typeCheck\<close>, after the first pass has set the annotation
  of every node it reads. An annotation that is not set is JavaScript's \<^verbatim>\<open>undefined\<close>:
  the model raises the engine's error where such a value is handed to the unifier or
  stored in the environment.
\<close>

definition addTypes :: "nat \<Rightarrow> state \<Rightarrow> ty option \<Rightarrow> ty option \<Rightarrow> state \<times> unit result" where
  "addTypes n s l r = (case (l, r) of
      (Some l', Some r') \<Rightarrow> addToConstraintList n s l' r'
    | _ \<Rightarrow> (s, Throw JSPropertyOfUndefined))"

definition tFuncOpt :: "ty option list \<Rightarrow> ty option" where
  "tFuncOpt types = (if list_all (\<lambda>t. t \<noteq> None) types then Some (tFunc (map the types)) else None)"

text \<open>\<^verbatim>\<open>(t as FunctionType).parameterTypes\<close>: \<^verbatim>\<open>undefined\<close> on a term that is not a function.\<close>

definition parameterTypesOf :: "ty \<Rightarrow> ty list option" where
  "parameterTypesOf t = (if isFunction t then Some (parameterTypes t) else None)"

text \<open>\<^verbatim>\<open>envType.kind === 'forall' ? extractFreeVariablesAndGenFresh(envType) : envType\<close>\<close>

definition instantiate :: "state \<Rightarrow> envType \<Rightarrow> state \<times> ty" where
  "instantiate s envType = (case envType of
      ForAll p \<Rightarrow> extractFreeVariablesAndGenFresh s p
    | Mono t \<Rightarrow> (s, t))"

text \<open>\<^verbatim>\<open>catch (e) { if (e instanceof UnifyError) { ... } }\<close>: any other error is dropped.\<close>

definition catchUnify ::
  "state \<times> unit result \<Rightarrow> (state \<Rightarrow> ty \<Rightarrow> ty \<Rightarrow> state \<times> unit result) \<Rightarrow> state \<times> unit result" where
  "catchUnify m h = tryCatch m (\<lambda>s e. case e of UnifyError l r \<Rightarrow> h s l r | _ \<Rightarrow> (s, Ok ()))"

fun foldM :: "(state \<Rightarrow> 'b \<Rightarrow> 'a \<Rightarrow> state \<times> 'b result) \<Rightarrow> state \<Rightarrow> 'b \<Rightarrow> 'a list \<Rightarrow> state \<times> 'b result" where
  "foldM f s acc [] = (s, Ok acc)"
| "foldM f s acc (x # xs) = andThen (f s acc x) (\<lambda>s1 acc1. foldM f s1 acc1 xs)"

text \<open>The two \<^verbatim>\<open>declNodes.forEach\<close> loops of a block: binding each declared name to its raw
  variable, and later to the schema of its applied type. Only \<^verbatim>\<open>declarations[0]\<close> is read.\<close>

definition prebindDecl :: "state \<Rightarrow> env \<Rightarrow> node \<Rightarrow> state \<times> env result" where
  "prebindDecl s e declNode = (case declNode of
      FunctionDeclaration a ft (Some declName) ps b \<Rightarrow>
        (case ft of
           None \<Rightarrow> (s, Throw JSPropertyOfUndefined)
         | Some t \<Rightarrow> (s, Ok (e\<lparr>typeMap := (typeMap e)(Some declName \<mapsto> Mono t),
                               declKindMap := (declKindMap e)(Some declName \<mapsto> ''const'')\<rparr>)))
    | VariableDeclaration a k ds \<Rightarrow>
        (if k \<noteq> ''var'' then
           (case ds of
              [] \<Rightarrow> (s, Throw JSPropertyOfUndefined)
            | d # rest \<Rightarrow>
                if isIdentifier (fst d) then
                  (case typeOf (snd d) of
                     None \<Rightarrow> (s, Throw JSPropertyOfUndefined)
                   | Some t \<Rightarrow> (s, Ok (e\<lparr>typeMap := (typeMap e)(nodeName (fst d) \<mapsto> Mono t),
                                         declKindMap := (declKindMap e)(nodeName (fst d) \<mapsto> k)\<rparr>)))
                else (s, Ok e))
         else (s, Ok e))
    | _ \<Rightarrow> (s, Ok e))"

definition generaliseDecl :: "nat \<Rightarrow> state \<Rightarrow> env \<Rightarrow> node \<Rightarrow> state \<times> env result" where
  "generaliseDecl n s e declNode = (case declNode of
      FunctionDeclaration a ft (Some declName) ps b \<Rightarrow>
        andThen (applyType n s ft)
          (\<lambda>s1 t. (s1, Ok (e\<lparr>typeMap := (typeMap e)(Some declName \<mapsto> ForAll t)\<rparr>)))
    | VariableDeclaration a k ds \<Rightarrow>
        (case ds of
           [] \<Rightarrow> (s, Throw JSPropertyOfUndefined)
         | d # rest \<Rightarrow>
             if isIdentifier (fst d) then
               andThen (applyType n s (typeOf (snd d)))
                 (\<lambda>s1 t. (s1, Ok (e\<lparr>typeMap := (typeMap e)(nodeName (fst d) \<mapsto> ForAll t)\<rparr>)))
             else (s, Ok e))
    | _ \<Rightarrow> (s, Ok e))"

text \<open>The type of the statement whose value is the block's:
  \<^verbatim>\<open>lastNode.expression.inferredType\<close> for an expression statement at the top level.\<close>

fun lastNodeTypeOf :: "bool \<Rightarrow> node \<Rightarrow> ty option" where
  "lastNodeTypeOf True (ExpressionStatement a e) = typeOf e"
| "lastNodeTypeOf isTop lastNode = typeOf lastNode"

text \<open>The cases that several node kinds share take the recursive call \<open>recur\<close> as an
  argument: \<^verbatim>\<open>Program\<close> and \<^verbatim>\<open>BlockStatement\<close>.\<close>

definition inferBlock ::
  "(state \<Rightarrow> node \<Rightarrow> env \<Rightarrow> bool \<Rightarrow> state \<times> unit result) \<Rightarrow> nat \<Rightarrow> state \<Rightarrow> node \<Rightarrow> node list
     \<Rightarrow> env \<Rightarrow> bool \<Rightarrow> state \<times> unit result" where
  "inferBlock recur n s node body environment isTopLevelAndLastValStmt =
     (let returnValNodeIndex = returnBlockValueNodeIndexFor body isTopLevelAndLastValStmt;
          declNodes = rev (filter isDeclaration body);
          lastDeclNodeIndex =
            (case filter (\<lambda>i. isDeclaration (body ! i)) (rev [0..<length body]) of
               [] \<Rightarrow> - 1
             | i # _ \<Rightarrow> int i)
      in
      andThen (foldM prebindDecl s environment declNodes) (\<lambda>s0 newEnv.
        if returnValNodeIndex < 0 then (s0, Throw JSPropertyOfUndefined)
        else
          andThen (addTypes n s0 (typeOf node)
                     (lastNodeTypeOf isTopLevelAndLastValStmt (body ! nat returnValNodeIndex)))
            (\<lambda>s1 _.
          andThen (forEachM
                     (\<lambda>s' i. recur s' (body ! i) newEnv
                                (if int i = returnValNodeIndex then isTopLevelAndLastValStmt else False))
                     s1 [0..<nat (lastDeclNodeIndex + 1)])
            (\<lambda>s2 _.
          andThen (foldM (generaliseDecl n) s2 newEnv declNodes)
            (\<lambda>s3 newEnv'.
          forEachM
            (\<lambda>s' i. recur s' (body ! i) newEnv'
                       (if int i = returnValNodeIndex then isTopLevelAndLastValStmt else False))
            s3 [nat (lastDeclNodeIndex + 1)..<length body])))))"

text \<open>\<^verbatim>\<open>LogicalExpression\<close> and \<^verbatim>\<open>BinaryExpression\<close>.\<close>

definition inferBinary ::
  "(state \<Rightarrow> node \<Rightarrow> env \<Rightarrow> bool \<Rightarrow> state \<times> unit result) \<Rightarrow> nat \<Rightarrow> state \<Rightarrow> node \<Rightarrow> string
     \<Rightarrow> node \<Rightarrow> node \<Rightarrow> env \<Rightarrow> state \<times> unit result" where
  "inferBinary recur n s node operator leftNode rightNode environment =
     (case typeMap environment (Some operator) of
        None \<Rightarrow> (s, Throw JSPropertyOfUndefined)
      | Some envType \<Rightarrow>
          (let (s0, opType) = instantiate s envType in
           andThen (mapM (\<lambda>s' argNode.
                            andThen (recur s' argNode environment False)
                              (\<lambda>s'' _. applyType n s'' (typeOf argNode)))
                      s0 [leftNode, rightNode])
             (\<lambda>s1 receivedTypes.
           catchUnify
             (addTypes n s1 (tFuncOpt [typeOf leftNode, typeOf rightNode, typeOf node]) (Some opType))
             (\<lambda>s2 l r. (pushError s2 (InvalidArgumentTypesError node [leftNode, rightNode]
                                        (parameterTypesOf opType) receivedTypes), Ok ())))))"

text \<open>\<^verbatim>\<open>ConditionalExpression\<close> and \<^verbatim>\<open>IfStatement\<close>.\<close>

definition inferIf ::
  "(state \<Rightarrow> node \<Rightarrow> env \<Rightarrow> bool \<Rightarrow> state \<times> unit result) \<Rightarrow> nat \<Rightarrow> state \<Rightarrow> node
     \<Rightarrow> node \<Rightarrow> node \<Rightarrow> node \<Rightarrow> env \<Rightarrow> bool \<Rightarrow> state \<times> unit result" where
  "inferIf recur n s node testNode consNode altNode environment isTopLevelAndLastValStmt =
     andThen (addTypes n s (typeOf testNode) (Some tBool)) (\<lambda>s1 _.
     andThen (addTypes n s1 (typeOf node) (typeOf consNode)) (\<lambda>s2 _.
     andThen (catchUnify (recur s2 testNode environment False)
                (\<lambda>s' l r. (pushError s' (InvalidTestConditionError node l), Ok ()))) (\<lambda>s3 _.
     andThen (recur s3 consNode environment isTopLevelAndLastValStmt) (\<lambda>s4 _.
     catchUnify
       (andThen (recur s4 altNode environment isTopLevelAndLastValStmt)
          (\<lambda>s5 _. addTypes n s5 (typeOf consNode) (typeOf altNode)))
       (\<lambda>s' l r. (pushError s' (ConsequentAlternateMismatchError node r l), Ok ()))))))"


text \<open>The \<^verbatim>\<open>init\<close> of a \<^verbatim>\<open>for\<close> statement; the result is the environment for the rest
  of the statement.\<close>

definition inferForInit ::
  "(state \<Rightarrow> node \<Rightarrow> env \<Rightarrow> bool \<Rightarrow> state \<times> unit result) \<Rightarrow> nat \<Rightarrow> state \<Rightarrow> node \<Rightarrow> env
     \<Rightarrow> state \<times> env result" where
  "inferForInit recur n s initNode environment =
     (let plain = andThen (recur s initNode environment False) (\<lambda>s1 _. (s1, Ok environment)) in
      case initNode of
        VariableDeclaration a k ds \<Rightarrow>
          (if k \<noteq> ''var'' then
             (case ds of
                [] \<Rightarrow> (s, Throw JSPropertyOfUndefined)
              | d # rest \<Rightarrow>
                  if isIdentifier (fst d) then
                    (case typeOf (snd d) of
                       None \<Rightarrow> (s, Throw JSPropertyOfUndefined)
                     | Some t \<Rightarrow>
                         (let newEnv = environment
                                \<lparr>typeMap := (typeMap environment)(nodeName (fst d) \<mapsto> Mono t),
                                 declKindMap := (declKindMap environment)(nodeName (fst d) \<mapsto> k)\<rparr>
                          in andThen (recur s initNode newEnv False) (\<lambda>s1 _.
                             andThen (applyType n s1 (typeOf (snd d))) (\<lambda>s2 t'.
                               (s2, Ok (newEnv\<lparr>typeMap :=
                                          (typeMap newEnv)(nodeName (fst d) \<mapsto> ForAll t')\<rparr>))))))
                  else plain)
           else plain)
      | _ \<Rightarrow> plain)"

text \<open>\<^verbatim>\<open>newEnv.typeMap.set(paramNode.name, paramNode.inferredType)\<close> for each parameter.
  The function type built from the same annotations has been unified before, so they
  are set.\<close>

definition bindParams :: "env \<Rightarrow> node list \<Rightarrow> env" where
  "bindParams environment paramNodes =
     foldl (\<lambda>e paramNode. case typeOf paramNode of
                             Some t \<Rightarrow> e\<lparr>typeMap := (typeMap e)(nodeName paramNode \<mapsto> Mono t)\<rparr>
                           | None \<Rightarrow> e)
           environment paramNodes"

function infer :: "nat \<Rightarrow> state \<Rightarrow> node \<Rightarrow> env \<Rightarrow> bool \<Rightarrow> state \<times> unit result"
and infer_inner :: "nat \<Rightarrow> state \<Rightarrow> node \<Rightarrow> env \<Rightarrow> bool \<Rightarrow> state \<times> unit result"
where
  "infer 0 s node environment isTop = (s, OutOfFuel)"
| "infer (Suc n) s node environment isTop =
     tryCatch (infer_inner n s node environment isTop)
       (\<lambda>s1 e. if isCyclic e then (s1, Ok ()) else (s1, Throw e))"
| "infer_inner 0 s node environment isTop = (s, OutOfFuel)"
| "infer_inner (Suc n) s (UnaryExpression a operator argNode) environment isTop =
     (let funcType = typeMap environment (Some (if operator = ''-'' then NEGATIVE_OP else operator)) in
      andThen (infer n s argNode environment False) (\<lambda>s1 _.
      andThen (applyType n s1 (typeOf argNode)) (\<lambda>s2 received.
        case funcType of
          None \<Rightarrow> (s2, Ok ())
        | Some (ForAll p) \<Rightarrow>
            (pushError s2 (InvalidArgumentTypesError (UnaryExpression a operator argNode)
                             [argNode] None [received]), Ok ())
        | Some (Mono ft) \<Rightarrow>
            catchUnify (addTypes n s2 (tFuncOpt [typeOf argNode, inferredType a]) (Some ft))
              (\<lambda>s3 l r. (pushError s3 (InvalidArgumentTypesError (UnaryExpression a operator argNode)
                                         [argNode] (parameterTypesOf ft) [received]), Ok ())))))"
| "infer_inner (Suc n) s (LogicalExpression a operator leftNode rightNode) environment isTop =
     inferBinary (infer n) n s (LogicalExpression a operator leftNode rightNode)
       operator leftNode rightNode environment"
| "infer_inner (Suc n) s (BinaryExpression a operator leftNode rightNode) environment isTop =
     inferBinary (infer n) n s (BinaryExpression a operator leftNode rightNode)
       operator leftNode rightNode environment"
| "infer_inner (Suc n) s (ExpressionStatement a expression) environment isTop =
     andThen (addTypes n s (inferredType a) (Some tUndef))
       (\<lambda>s1 _. infer n s1 expression environment False)"
| "infer_inner (Suc n) s (ReturnStatement a argNode) environment isTop =
     andThen (addTypes n s (inferredType a) (typeOf argNode))
       (\<lambda>s1 _. infer n s1 argNode environment False)"
| "infer_inner (Suc n) s (WhileStatement a testNode bodyNode) environment isTop =
     andThen (addTypes n s (typeOf testNode) (Some tBool)) (\<lambda>s1 _.
     andThen (addTypes n s1 (inferredType a) (typeOf bodyNode)) (\<lambda>s2 _.
     andThen (catchUnify (infer n s2 testNode environment False)
                (\<lambda>s' l r. (pushError s' (InvalidTestConditionError
                                           (WhileStatement a testNode bodyNode) l), Ok ()))) (\<lambda>s3 _.
     infer n s3 bodyNode environment isTop)))"
| "infer_inner (Suc n) s (ForStatement a initNode testNode updateNode bodyNode) environment isTop =
     andThen (addTypes n s (inferredType a) (typeOf bodyNode)) (\<lambda>s1 _.
     andThen (inferForInit (infer n) n s1 initNode environment) (\<lambda>s2 newEnv.
     andThen (catchUnify
                (andThen (infer n s2 testNode newEnv False)
                   (\<lambda>s' _. addTypes n s' (typeOf testNode) (Some tBool)))
                (\<lambda>s' l r. (pushError s' (InvalidTestConditionError
                                           (ForStatement a initNode testNode updateNode bodyNode) l),
                            Ok ()))) (\<lambda>s3 _.
     andThen (infer n s3 updateNode newEnv False) (\<lambda>s4 _.
     infer n s4 bodyNode newEnv isTop))))"
| "infer_inner (Suc n) s (Program a body) environment isTop =
     inferBlock (infer n) n s (Program a body) body environment isTop"
| "infer_inner (Suc n) s (BlockStatement a body) environment isTop =
     inferBlock (infer n) n s (BlockStatement a body) body environment isTop"
| "infer_inner (Suc n) s (Literal a literalVal) environment isTop =
     (case literalVal of
        LNull \<Rightarrow> (let (s1, t) = tVarNext s in addTypes n s1 (inferredType a) (Some (TList t)))
      | LNumber v \<Rightarrow> addTypes n s (inferredType a) (Some tNumber)
      | LBoolean v \<Rightarrow> addTypes n s (inferredType a) (Some tBool)
      | LString v \<Rightarrow> addTypes n s (inferredType a) (Some tString)
      | LRegExp \<Rightarrow> (s, Throw (JSError ''Unexpected literal type'')))"
| "infer_inner (Suc n) s (Identifier a identifierName) environment isTop =
     (case typeMap environment (Some identifierName) of
        Some envType \<Rightarrow>
          (let (s1, t) = instantiate s envType in addTypes n s1 (inferredType a) (Some t))
      | None \<Rightarrow>
          (pushError s (UndefinedIdentifierError (Identifier a identifierName) identifierName), Ok ()))"
| "infer_inner (Suc n) s (ConditionalExpression a testNode consNode altNode) environment isTop =
     inferIf (infer n) n s (ConditionalExpression a testNode consNode altNode)
       testNode consNode altNode environment isTop"
| "infer_inner (Suc n) s (IfStatement a testNode consNode altNode) environment isTop =
     inferIf (infer n) n s (IfStatement a testNode consNode altNode)
       testNode consNode altNode environment isTop"
| "infer_inner (Suc n) s (ArrowFunctionExpression a paramNodes bodyNode) environment isTop =
     andThen (addTypes n s (inferredType a)
                (tFuncOpt (map typeOf paramNodes @ [typeOf bodyNode])))
       (\<lambda>s1 _. infer n s1 bodyNode (bindParams environment paramNodes) False)"
| "infer_inner (Suc n) s (VariableDeclaration a k ds) environment isTop =
     (case ds of
        [] \<Rightarrow> (s, Throw JSPropertyOfUndefined)
      | d # rest \<Rightarrow>
          andThen (addTypes n s (inferredType a) (Some tUndef))
            (\<lambda>s1 _. infer n s1 (snd d) environment False))"
| "infer_inner (Suc n) s (FunctionDeclaration a storedFunctionType nm paramNodes bodyNode)
       environment isTop =
     andThen (addTypes n s (inferredType a) (Some tUndef)) (\<lambda>s1 _.
     andThen (addTypes n s1 storedFunctionType
                (tFuncOpt (map typeOf paramNodes @ [typeOf bodyNode]))) (\<lambda>s2 _.
     infer n s2 bodyNode (bindParams environment paramNodes) False))"
| "infer_inner (Suc n) s (CallExpression a calleeNode argNodes) environment isTop =
     andThen (infer n s calleeNode environment False) (\<lambda>s1 _.
     andThen (applyType n s1 (typeOf calleeNode)) (\<lambda>s2 calledFunctionType.
     andThen (mapM (\<lambda>s' argNode.
                      andThen (infer n s' argNode environment False)
                        (\<lambda>s'' _. applyType n s'' (typeOf argNode)))
                s2 argNodes) (\<lambda>s3 receivedTypes.
     tryCatch (addTypes n s3 (tFuncOpt (map typeOf argNodes @ [inferredType a])) (typeOf calleeNode))
       (\<lambda>s4 e. case e of
          UnifyError l r \<Rightarrow>
            (pushError s4 (InvalidArgumentTypesError (CallExpression a calleeNode argNodes) argNodes
                             (parameterTypesOf calledFunctionType) receivedTypes), Ok ())
        | InternalDifferentNumberArgumentsError expected received \<Rightarrow>
            (pushError s4 (DifferentNumberArgumentsError (CallExpression a calleeNode argNodes)
                             expected received), Ok ())
        | _ \<Rightarrow> (s4, Ok ())))))"
| "infer_inner (Suc n) s (AssignmentExpression a leftNode rightNode) environment isTop =
     andThen (infer n s rightNode environment False) (\<lambda>s1 _.
     andThen (addTypes n s1 (inferredType a) (typeOf rightNode)) (\<lambda>s2 _.
       if isIdentifier leftNode then
         (if declKindMap environment (nodeName leftNode) = Some ''const'' then
            (pushError s2 (ReassignConstError (AssignmentExpression a leftNode rightNode)), Ok ())
          else
            (case typeMap environment (nodeName leftNode) of
               None \<Rightarrow> (s2, Throw JSPropertyOfUndefined)
             | Some leftNodeType \<Rightarrow>
                 (let (s3, expectedType) = instantiate s2 leftNodeType in
                  tryCatch (addTypes n s3 (typeOf rightNode) (Some expectedType))
                    (\<lambda>s4 e. case e of
                       UnifyError l r \<Rightarrow>
                         andThen (applyType n s4 (typeOf rightNode)) (\<lambda>s5 t.
                           (pushError s5 (DifferentAssignmentError
                                            (AssignmentExpression a leftNode rightNode)
                                            expectedType t), Ok ()))
                     | _ \<Rightarrow> (s4, Ok ())))))
       else
         andThen (infer n s2 leftNode environment False) (\<lambda>s3 _.
         tryCatch (addTypes n s3 (typeOf rightNode) (typeOf leftNode))
           (\<lambda>s4 e. case e of
              UnifyError l r \<Rightarrow>
                andThen (applyType n s4 (typeOf leftNode)) (\<lambda>s5 tl.
                andThen (applyType n s5 (typeOf rightNode)) (\<lambda>s6 tr.
                  (pushError s6 (ArrayAssignmentError (AssignmentExpression a leftNode rightNode)
                                   (TArray tl) tr), Ok ())))
            | _ \<Rightarrow> (s4, Ok ())))))"
| "infer_inner (Suc n) s (ArrayExpression a elements) environment isTop =
     andThen (forEachM (\<lambda>s' element. infer n s' element environment False) s elements) (\<lambda>s1 _.
       let (s2, arrayElementType) = tVarNext s1 in
       andThen (addTypes n s2 (inferredType a) (Some (TArray arrayElementType))) (\<lambda>s3 _.
       forEachM
         (\<lambda>s' element.
            tryCatch (addTypes n s' (Some arrayElementType) (typeOf element))
              (\<lambda>s'' e. case e of
                 UnifyError l r \<Rightarrow>
                   andThen (applyType n s'' (inferredType a)) (\<lambda>s5 ta.
                   andThen (applyType n s5 (typeOf element)) (\<lambda>s6 te.
                     (pushError s6 (ArrayAssignmentError (ArrayExpression a elements) ta te), Ok ())))
               | _ \<Rightarrow> (s'', Ok ())))
         s3 elements))"
| "infer_inner (Suc n) s (MemberExpression a obj property) environment isTop =
     andThen (infer n s property environment False) (\<lambda>s1 _.
       case typeMap environment (nodeName obj) of
         None \<Rightarrow> (s1, Throw JSPropertyOfUndefined)
       | Some envType \<Rightarrow>
           andThen (case envType of
                      ForAll p \<Rightarrow> (let (s', t) = extractFreeVariablesAndGenFresh s1 p in (s', Ok t))
                    | Mono t \<Rightarrow> applyConstraints n s1 t) (\<lambda>s2 arrayType.
             if \<not> isArray arrayType then (s2, Throw (InternalTypeError (nodeName obj) arrayType))
             else
               andThen (catchUnify (addTypes n s2 (typeOf property) (Some tNumber))
                          (\<lambda>s' l r. andThen (applyType n s' (typeOf property)) (\<lambda>s'' t.
                             (pushError s'' (InvalidArrayIndexType (MemberExpression a obj property) t),
                              Ok ())))) (\<lambda>s3 _.
               addTypes n s3 (inferredType a) (Some (elementType arrayType)))))"
| "infer_inner (Suc n) s (OtherNode a k) environment isTop = (s, Ok ())"
  by pat_completeness auto
termination
  by (relation "measure (\<lambda>x. case x of Inl (n, _) \<Rightarrow> n | Inr (n, _) \<Rightarrow> n)") simp_all


section \<open>The initial environment and \<^verbatim>\<open>typeCheck\<close>\<close>

text \<open>
  The variable objects that the module creates while it builds \<^verbatim>\<open>initialEnv\<close>, in the
  order of their creation: every \<^verbatim>\<open>tVar('T')\<close> and \<^verbatim>\<open>tAddable('A')\<close> is an object of
  its own, \<^verbatim>\<open>headType\<close> and \<^verbatim>\<open>tailType\<close> are shared by the pair functions.
\<close>

definition varT :: variable where "varT = \<lparr>name = ''TT'', constraint = NoneK\<rparr>"
definition varA :: variable where "varA = \<lparr>name = ''A'', constraint = AddableK\<rparr>"

definition initialVars :: "variable list" where
  "initialVars =
     [varT, varT, varT, varT, varT, varT, varT, varT, varT, varT,
      \<lparr>name = ''TheadType'', constraint = NoneK\<rparr>, \<lparr>name = ''TtailType'', constraint = NoneK\<rparr>,
      varT, varT, varT, \<lparr>name = ''TT1'', constraint = NoneK\<rparr>,
      varT, varT, varT, varT,
      varA, varA, varA, varA, varA, varA, varA, varA, varA, varA, varA, varA, varA, varA, varA]"

definition headTypeVar :: ty where "headTypeVar = TVar 10"
definition tailTypeVar :: ty where "tailTypeVar = TVar 11"

definition predeclaredNames :: "(string \<times> envType) list" where
  "predeclaredNames =
     [(''Infinity'', Mono tNumber),
      (''NaN'', Mono tNumber),
      (''undefined'', Mono tUndef),
      (''math_LN2'', Mono tNumber),
      (''math_LN10'', Mono tNumber),
      (''math_LOG2E'', Mono tNumber),
      (''math_LOG10E'', Mono tNumber),
      (''math_PI'', Mono tNumber),
      (''math_SQRT1_2'', Mono tNumber),
      (''math_SQRT2'', Mono tNumber),
      (''is_boolean'', ForAll (tFunc [TVar 0, tBool])),
      (''is_number'', ForAll (tFunc [TVar 1, tBool])),
      (''is_string'', ForAll (tFunc [TVar 2, tBool])),
      (''is_undefined'', ForAll (tFunc [TVar 3, tBool])),
      (''math_abs'', Mono (tFunc [tNumber, tNumber])),
      (''math_acos'', Mono (tFunc [tNumber, tNumber])),
      (''math_acosh'', Mono (tFunc [tNumber, tNumber])),
      (''math_asin'', Mono (tFunc [tNumber, tNumber])),
      (''math_asinh'', Mono (tFunc [tNumber, tNumber])),
      (''math_atan'', Mono (tFunc [tNumber, tNumber])),
      (''math_atan2'', Mono (tFunc [tNumber, tNumber, tNumber])),
      (''math_atanh'', Mono (tFunc [tNumber, tNumber])),
      (''math_cbrt'', Mono (tFunc [tNumber, tNumber])),
      (''math_ceil'', Mono (tFunc [tNumber, tNumber])),
      (''math_clz32'', Mono (tFunc [tNumber, tNumber])),
      (''math_cos'', Mono (tFunc [tNumber, tNumber])),
      (''math_cosh'', Mono (tFunc [tNumber, tNumber])),
      (''math_exp'', Mono (tFunc [tNumber, tNumber])),
      (''math_expm1'', Mono (tFunc [tNumber, tNumber])),
      (''math_floor'', Mono (tFunc [tNumber, tNumber])),
      (''math_fround'', Mono (tFunc [tNumber, tNumber])),
      (''math_hypot'', ForAll (TVar 4)),
      (''math_imul'', Mono (tFunc [tNumber, tNumber, tNumber])),
      (''math_log'', Mono (tFunc [tNumber, tNumber])),
      (''math_log1p'', Mono (tFunc [tNumber, tNumber])),
      (''math_log2'', Mono (tFunc [tNumber, tNumber])),
      (''math_log10'', Mono (tFunc [tNumber, tNumber])),
      (''math_max'', ForAll (TVar 5)),
      (''math_min'', ForAll (TVar 6)),
      (''math_pow'', Mono (tFunc [tNumber, tNumber, tNumber])),
      (''math_random'', Mono (tFunc [tNumber])),
      (''math_round'', Mono (tFunc [tNumber, tNumber])),
      (''math_sign'', Mono (tFunc [tNumber, tNumber])),
      (''math_sin'', Mono (tFunc [tNumber, tNumber])),
      (''math_sinh'', Mono (tFunc [tNumber, tNumber])),
      (''math_sqrt'', Mono (tFunc [tNumber, tNumber])),
      (''math_tan'', Mono (tFunc [tNumber, tNumber])),
      (''math_tanh'', Mono (tFunc [tNumber, tNumber])),
      (''math_trunc'', Mono (tFunc [tNumber, tNumber])),
      (''parse_int'', Mono (tFunc [tString, tNumber, tNumber])),
      (''prompt'', Mono (tFunc [tString, tString])),
      (''runtime'', Mono (tFunc [tNumber])),
      (''stringify'', ForAll (tFunc [TVar 7, tString])),
      (''display'', ForAll (TVar 8)),
      (''error'', ForAll (TVar 9))]"

definition pairFuncs :: "(string \<times> envType) list" where
  "pairFuncs =
     [(''pair'', ForAll (tFunc [headTypeVar, tailTypeVar, TPair headTypeVar tailTypeVar])),
      (''head'', ForAll (tFunc [TPair headTypeVar tailTypeVar, headTypeVar])),
      (''tail'', ForAll (tFunc [TPair headTypeVar tailTypeVar, tailTypeVar])),
      (''is_pair'', ForAll (tFunc [TVar 12, tBool])),
      (''is_null'', ForAll (tFunc [TPair headTypeVar tailTypeVar, tBool])),
      (''set_head'', ForAll (tFunc [TPair headTypeVar tailTypeVar, headTypeVar, tUndef])),
      (''set_tail'', ForAll (tFunc [TPair headTypeVar tailTypeVar, tailTypeVar, tUndef]))]"

definition arrayFuncs :: "(string \<times> envType) list" where
  "arrayFuncs =
     [(''is_array'', ForAll (tFunc [TVar 13, tBool])),
      (''array_length'', ForAll (tFunc [TArray (TVar 14), tNumber]))]"

definition listFuncs :: "(string \<times> envType) list" where
  "listFuncs = [(''list'', ForAll (TVar 15))]"

definition primitiveFuncs :: "(string \<times> envType) list" where
  "primitiveFuncs =
     [(NEGATIVE_OP, Mono (tFunc [tNumber, tNumber])),
      (''!'', Mono (tFunc [tBool, tBool])),
      (''&&'', ForAll (tFunc [tBool, TVar 16, TVar 17])),
      (''||'', ForAll (tFunc [tBool, TVar 18, TVar 19])),
      (''==='', ForAll (tFunc [TVar 20, TVar 21, tBool])),
      (''!=='', ForAll (tFunc [TVar 22, TVar 23, tBool])),
      (''<'', ForAll (tFunc [TVar 24, TVar 25, tBool])),
      (''<='', ForAll (tFunc [TVar 26, TVar 27, tBool])),
      (''>'', ForAll (tFunc [TVar 28, TVar 29, tBool])),
      (''>='', ForAll (tFunc [TVar 30, TVar 31, tBool])),
      (''+'', ForAll (tFunc [TVar 32, TVar 33, TVar 34])),
      (''%'', Mono (tFunc [tNumber, tNumber, tNumber])),
      (''-'', Mono (tFunc [tNumber, tNumber, tNumber])),
      (''*'', Mono (tFunc [tNumber, tNumber, tNumber])),
      (''/'', Mono (tFunc [tNumber, tNumber, tNumber]))]"

definition initialTypeMappings :: "(string \<times> envType) list" where
  "initialTypeMappings = predeclaredNames @ pairFuncs @ listFuncs @ arrayFuncs @ primitiveFuncs"

definition initialEnv :: env where
  "initialEnv =
     \<lparr>typeMap = map_of (map (\<lambda>val. (Some (fst val), snd val)) initialTypeMappings),
      declKindMap = map_of (map (\<lambda>val. (Some (fst val), ''const'')) initialTypeMappings)\<rparr>"

text \<open>
  \<^verbatim>\<open>typeCheck\<close> resets the counter and the diagnostics and starts from an empty
  constraint array. The variable objects of an earlier run cannot be reached from a new
  one (the first pass overwrites every annotation before it is read, and the objects of
  \<^verbatim>\<open>initialEnv\<close> are only ever copied), so the heap starts as the module left it. The
  result is the annotated program and \<^verbatim>\<open>typeErrors\<close>; the final state comes with it, for
  the names and kinds of the variables.
\<close>

definition typeCheck :: "nat \<Rightarrow> state \<Rightarrow> node \<Rightarrow> state \<times> (node \<times> diag list) result" where
  "typeCheck n s program =
     (let s0 = s\<lparr>vars := initialVars, constraints := [], typeIdCounter := 0, typeErrors := []\<rparr> in
      andThen (traverse n False s0 program) (\<lambda>s1 program1.
      andThen (infer n s1 program1 initialEnv True) (\<lambda>s2 _.
      andThen (traverse n True s2 program1) (\<lambda>s3 program3.
        (s3, Ok (program3, typeErrors s3))))))"


section \<open>Inputs used in the examples\<close>

text \<open>A heap of three variable objects: \<^verbatim>\<open>T0\<close> and \<^verbatim>\<open>T1\<close> of kind \<^verbatim>\<open>none\<close> and
  \<^verbatim>\<open>A\<close> of kind \<^verbatim>\<open>addable\<close>, and a state over it with a given constraint array.\<close>

definition exVars :: "variable list" where
  "exVars = [\<lparr>name = ''T0'', constraint = NoneK\<rparr>, \<lparr>name = ''T1'', constraint = NoneK\<rparr>,
             \<lparr>name = ''A'', constraint = AddableK\<rparr>]"

definition exState :: "(nat \<times> ty) list \<Rightarrow> state" where
  "exState cs = \<lparr>vars = exVars, constraints = cs, typeIdCounter = 2, typeErrors = []\<rparr>"

text \<open>The annotation of a node as the parser leaves it, and a node decorated with a
  variable of the example heap.\<close>

definition ua :: annot where
  "ua = \<lparr>inferredType = None, typability = NotYetTyped\<rparr>"

definition decorated :: "nat \<Rightarrow> annot" where
  "decorated a = \<lparr>inferredType = Some (TVar a), typability = NotYetTyped\<rparr>"

text \<open>\<^verbatim>\<open>const x = 1; x[0];\<close>\<close>

definition progMember :: node where
  "progMember = Program ua
     [VariableDeclaration ua ''const'' [(Identifier ua ''x'', Literal ua (LNumber 1))],
      ExpressionStatement ua (MemberExpression ua (Identifier ua ''x'') (Literal ua (LNumber 0)))]"

text \<open>\<^verbatim>\<open>(true ? true : false) + true;\<close>\<close>

definition progAddable :: node where
  "progAddable = Program ua
     [ExpressionStatement ua
        (BinaryExpression ua ''+''
           (ConditionalExpression ua (Literal ua (LBoolean True)) (Literal ua (LBoolean True))
              (Literal ua (LBoolean False)))
           (Literal ua (LBoolean True)))]"

text \<open>\<^verbatim>\<open>function f(x) { x(x); x(1, 2); }\<close>\<close>

definition progCall :: node where
  "progCall = Program ua
     [FunctionDeclaration ua None (Some ''f'') [Identifier ua ''x'']
        (BlockStatement ua
           [ExpressionStatement ua (CallExpression ua (Identifier ua ''x'') [Identifier ua ''x'']),
            ExpressionStatement ua (CallExpression ua (Identifier ua ''x'')
                                      [Literal ua (LNumber 1), Literal ua (LNumber 2)])])]"

text \<open>\<^verbatim>\<open>function f() { return x + x; } const x = true;\<close>\<close>

definition progLate :: node where
  "progLate = Program ua
     [FunctionDeclaration ua None (Some ''f'') []
        (BlockStatement ua
           [ReturnStatement ua (BinaryExpression ua ''+'' (Identifier ua ''x'') (Identifier ua ''x''))]),
      VariableDeclaration ua ''const'' [(Identifier ua ''x'', Literal ua (LBoolean True))]]"

text \<open>\<^verbatim>\<open>function g() { return f(1); } function f(x, y) { return x; }\<close>\<close>

definition progArity :: node where
  "progArity = Program ua
     [FunctionDeclaration ua None (Some ''g'') []
        (BlockStatement ua
           [ReturnStatement ua (CallExpression ua (Identifier ua ''f'') [Literal ua (LNumber 1)])]),
      FunctionDeclaration ua None (Some ''f'') [Identifier ua ''x'', Identifier ua ''y'']
        (BlockStatement ua [ReturnStatement ua (Identifier ua ''x'')])]"

text \<open>\<^verbatim>\<open>const x = 1, y = true; y;\<close>\<close>

definition progTwo :: node where
  "progTwo = Program ua
     [VariableDeclaration ua ''const''
        [(Identifier ua ''x'', Literal ua (LNumber 1)),
         (Identifier ua ''y'', Literal ua (LBoolean True))],
      ExpressionStatement ua (Identifier ua ''y'')]"

text \<open>\<^verbatim>\<open>const x = 1, y = 2;\<close> as the parser leaves it, and with the declaration and the
  first \<^verbatim>\<open>init\<close> decorated with the variables \<^verbatim>\<open>T0\<close> and \<^verbatim>\<open>T1\<close>.\<close>

definition declTwo :: node where
  "declTwo = VariableDeclaration ua ''const''
     [(Identifier ua ''x'', Literal ua (LNumber 1)), (Identifier ua ''y'', Literal ua (LNumber 2))]"


text \<open>An environment that binds \<^verbatim>\<open>x\<close> to the variable \<^verbatim>\<open>T0\<close>, and one that binds
  \<^verbatim>\<open>g\<close> to a function of one parameter.\<close>

definition envX :: env where
  "envX = \<lparr>typeMap = [Some ''x'' \<mapsto> Mono (TVar 0)], declKindMap = [Some ''x'' \<mapsto> ''const'']\<rparr>"

definition envG :: env where
  "envG = \<lparr>typeMap = [Some ''g'' \<mapsto> Mono (TFunc [tNumber] tNumber)],
           declKindMap = [Some ''g'' \<mapsto> ''const'']\<rparr>"

text \<open>What the examples read off a run of \<^verbatim>\<open>typeCheck\<close>: the diagnostics, the variable
  objects the run has created, the final constraint array, and for every call expression
  of the annotated program (statement by statement) the number of its arguments with the
  resolved type of its callee.\<close>

fun callSites :: "node \<Rightarrow> (nat \<times> ty option) list" where
  "callSites (Program a body) = concat (map callSites body)"
| "callSites (BlockStatement a body) = concat (map callSites body)"
| "callSites (ExpressionStatement a e) = callSites e"
| "callSites (FunctionDeclaration a ft nm ps b) = callSites b"
| "callSites (CallExpression a f args) = [(length args, typeOf f)]"
| "callSites node = []"

definition outcome ::
  "state \<times> (node \<times> diag list) result
     \<Rightarrow> (diag list \<times> variable list \<times> (nat \<times> ty) list \<times> (nat \<times> ty option) list) result" where
  "outcome r = (case r of
      (s, Ok (p, ds)) \<Rightarrow> Ok (ds, drop (length initialVars) (vars s), constraints s, callSites p)
    | (s, Throw e) \<Rightarrow> Throw e
    | (s, OutOfFuel) \<Rightarrow> OutOfFuel)"

section \<open>Properties of computations\<close>

text \<open>\<open>follows R s m\<close>: the state the computation \<open>m\<close> ends in is related by \<open>R\<close> to the
  state \<open>s\<close> it started from, whether it returns or throws. \<open>throwsOnly P m\<close>: an error
  thrown by \<open>m\<close> satisfies \<open>P\<close>.\<close>

definition follows :: "(state \<Rightarrow> state \<Rightarrow> bool) \<Rightarrow> state \<Rightarrow> state \<times> 'a result \<Rightarrow> bool" where
  "follows R s m = R s (fst m)"

definition throwsOnly :: "(error \<Rightarrow> bool) \<Rightarrow> state \<times> 'a result \<Rightarrow> bool" where
  "throwsOnly P m = (case snd m of Throw e \<Rightarrow> P e | _ \<Rightarrow> True)"

text \<open>The store only grows: the array before is a prefix of the array after.\<close>

definition storeGrows :: "state \<Rightarrow> state \<Rightarrow> bool" where
  "storeGrows s s' = prefix (constraints s) (constraints s')"

text \<open>The diagnostics recorded between two states, and the condition that a
  \<^verbatim>\<open>CyclicReferenceError\<close> among them is for a function declaration.\<close>

fun cyclicOnlyForFunctions :: "diag \<Rightarrow> bool" where
  "cyclicOnlyForFunctions (CyclicReferenceError (FunctionDeclaration a ft nm ps b)) = True"
| "cyclicOnlyForFunctions (CyclicReferenceError node) = False"
| "cyclicOnlyForFunctions d = True"

definition recordsOnly :: "(diag \<Rightarrow> bool) \<Rightarrow> state \<Rightarrow> state \<Rightarrow> bool" where
  "recordsOnly P s s' =
     (prefix (typeErrors s) (typeErrors s')
      \<and> list_all P (drop (length (typeErrors s)) (typeErrors s')))"

section \<open>Evaluation\<close>

text \<open>
  The rules below evaluate the model on a concrete input with the simplifier: the
  congruence rules keep it from rewriting a continuation before the computation it
  follows has a value, and the fuel is unfolded one step at a time.
\<close>

lemma andThen_cong: "m = m' \<Longrightarrow> andThen m f = andThen m' f"
  by simp

lemma tryCatch_cong: "m = m' \<Longrightarrow> tryCatch m f = tryCatch m' f"
  by simp

lemma mapM_cong: "s = s' \<Longrightarrow> xs = xs' \<Longrightarrow> mapM f s xs = mapM f s' xs'"
  by simp

lemma forEachM_cong: "s = s' \<Longrightarrow> xs = xs' \<Longrightarrow> forEachM f s xs = forEachM f s' xs'"
  by simp

lemma foldM_cong: "s = s' \<Longrightarrow> a = a' \<Longrightarrow> xs = xs' \<Longrightarrow> foldM f s a xs = foldM f s' a' xs'"
  by simp

lemmas eval_congs = andThen_cong tryCatch_cong mapM_cong forEachM_cong foldM_cong

lemma andThen_simps:
  "andThen (s, Ok x) f = f s x"
  "andThen (s, Throw e) f = (s, Throw e)"
  "andThen (s, OutOfFuel) f = (s, OutOfFuel)"
  by (simp_all add: andThen_def)

lemma tryCatch_simps:
  "tryCatch (s, Ok x) h = (s, Ok x)"
  "tryCatch (s, Throw e) h = h s e"
  "tryCatch (s, OutOfFuel) h = (s, OutOfFuel)"
  by (simp_all add: tryCatch_def)

lemmas fuel_numeral =
  addToConstraintList.simps(2) [of "pred_numeral k", folded numeral_eq_Suc]
  occursOnLeftInConstraintList.simps(2) [of "pred_numeral k", folded numeral_eq_Suc]
  applyConstraints.simps(2) [of "pred_numeral k", folded numeral_eq_Suc]
  applyConstraints_inner.simps(2) [of "pred_numeral k", folded numeral_eq_Suc]
  traverse.simps(2) [of "pred_numeral k", folded numeral_eq_Suc]
  infer.simps(2) [of "pred_numeral k", folded numeral_eq_Suc]
  infer_inner.simps(2-22) [of "pred_numeral k", folded numeral_eq_Suc]
  for k

lemmas unifier_defs = andThen_simps tryCatch_simps fuel_numeral getListType_def
  cannotBeResolvedIfAddable_def firstWithName_def tBool_def tNumber_def tString_def tUndef_def
  exState_def exVars_def decorated_def

lemmas eval_defs = unifier_defs Let_def upt_conv_Cons catchUnify_def typeCheck_def
  traverseHead_def traverseFunctionType_def applyType_def typeOf_def pushError_def
  tVarNext_def alloc_def freshTypeVar_def union_def extractFreeVariablesAndGenFresh_def
  instantiate_def addTypes_def tFuncOpt_def tFunc_def parameterTypesOf_def
  prebindDecl_def generaliseDecl_def inferBlock_def inferBinary_def inferIf_def inferForInit_def
  bindParams_def returnBlockValueNodeIndexFor_def initialEnv_def initialTypeMappings_def
  predeclaredNames_def pairFuncs_def arrayFuncs_def listFuncs_def primitiveFuncs_def
  initialVars_def varT_def varA_def headTypeVar_def tailTypeVar_def NEGATIVE_OP_def

lemmas prog_defs = progMember_def progAddable_def progCall_def progLate_def ua_def outcome_def
  declTwo_def envX_def envG_def progArity_def progTwo_def

section \<open>Relations kept by the unifier\<close>

lemma follows_pair [simp]: "follows R s (s', r) = R s s'"
  by (simp add: follows_def)

lemma follows_andThen:
  assumes trans: "\<And>a b c. R a b \<Longrightarrow> R b c \<Longrightarrow> R a c"
      and m: "follows R s m" and f: "\<And>s1 x. follows R s1 (f s1 x)"
  shows "follows R s (andThen m f)"
proof (cases m)
  case (Pair s1 r)
  show ?thesis
  proof (cases r)
    case (Ok x)
    have "R s1 (fst (f s1 x))" using f [of s1 x] by (simp add: follows_def)
    moreover have "R s s1" using m Pair by simp
    ultimately show ?thesis using Pair Ok by (simp add: andThen_simps follows_def trans)
  qed (use m Pair in \<open>simp_all add: andThen_simps\<close>)
qed

lemma follows_tryCatch:
  assumes trans: "\<And>a b c. R a b \<Longrightarrow> R b c \<Longrightarrow> R a c"
      and m: "follows R s m" and f: "\<And>s1 e. follows R s1 (h s1 e)"
  shows "follows R s (tryCatch m h)"
proof (cases m)
  case (Pair s1 r)
  show ?thesis
  proof (cases r)
    case (Throw e)
    have "R s1 (fst (h s1 e))" using f [of s1 e] by (simp add: follows_def)
    moreover have "R s s1" using m Pair by simp
    ultimately show ?thesis using Pair Throw by (simp add: tryCatch_simps follows_def trans)
  qed (use m Pair in \<open>simp_all add: tryCatch_simps\<close>)
qed

lemma follows_forEachM:
  assumes refl: "\<And>a. R a a" and trans: "\<And>a b c. R a b \<Longrightarrow> R b c \<Longrightarrow> R a c"
      and f: "\<And>s1 x. follows R s1 (f s1 x)"
  shows "follows R s (forEachM f s xs)"
proof (induction xs arbitrary: s)
  case Nil
  show ?case by (simp add: refl)
next
  case (Cons x xs)
  show ?case by (simp, rule follows_andThen [of R], erule (1) trans, rule f, rule Cons.IH)
qed

lemma follows_mapM:
  assumes refl: "\<And>a. R a a" and trans: "\<And>a b c. R a b \<Longrightarrow> R b c \<Longrightarrow> R a c"
      and f: "\<And>s1 x. follows R s1 (f s1 x)"
  shows "follows R s (mapM f s xs)"
proof (induction xs arbitrary: s)
  case Nil
  show ?case by (simp add: refl)
next
  case (Cons x xs)
  show ?case
    by (simp, rule follows_andThen [of R], erule (1) trans, rule f,
        rule follows_andThen [of R], erule (1) trans, rule Cons.IH, simp add: refl)
qed

lemma follows_foldM:
  assumes refl: "\<And>a. R a a" and trans: "\<And>a b c. R a b \<Longrightarrow> R b c \<Longrightarrow> R a c"
      and f: "\<And>s1 acc x. follows R s1 (f s1 acc x)"
  shows "follows R s (foldM f s acc xs)"
proof (induction xs arbitrary: s acc)
  case Nil
  show ?case by (simp add: refl)
next
  case (Cons x xs)
  show ?case by (simp, rule follows_andThen [of R], erule (1) trans, rule f, rule Cons.IH)
qed



lemma follows_if:
  "(c \<Longrightarrow> follows R s a) \<Longrightarrow> (\<not> c \<Longrightarrow> follows R s b) \<Longrightarrow> follows R s (if c then a else b)"
  by simp

text \<open>The unifier changes the state in two ways only: it pushes an entry onto the
  constraint array, and it sets the kind of a variable to \<^verbatim>\<open>addable\<close>. A reflexive and
  transitive relation that both steps respect holds between the state before and the
  state after every call.\<close>

lemma unifier_follows:
  assumes refl: "\<And>a. R a a" and trans: "\<And>a b c. R a b \<Longrightarrow> R b c \<Longrightarrow> R a c"
      and push: "\<And>s c. R s (s\<lparr>constraints := constraints s @ [c]\<rparr>)"
      and tighten: "\<And>s a. R s (s\<lparr>vars := (vars s)[a := (vars s ! a)\<lparr>constraint := AddableK\<rparr>]\<rparr>)"
  shows "(\<forall>s l r. follows R s (addToConstraintList n s l r)) \<and>
         (\<forall>s a r. follows R s (occursOnLeftInConstraintList n s a r)) \<and>
         (\<forall>s t. follows R s (applyConstraints n s t)) \<and>
         (\<forall>s t. follows R s (applyConstraints_inner n s t))"
proof (induction n)
  case 0
  show ?case by (simp add: refl)
next
  case (Suc n)
  then have add: "\<And>s l r. follows R s (addToConstraintList n s l r)"
    and occ: "\<And>s a r. follows R s (occursOnLeftInConstraintList n s a r)"
    and app: "\<And>s t. follows R s (applyConstraints n s t)"
    and inn: "\<And>s t. follows R s (applyConstraints_inner n s t)"
    by blast+
  note at = follows_andThen [of R, OF trans]
  have 1: "follows R s (addToConstraintList (Suc n) s l r)" for s l r
    apply (subst addToConstraintList.simps)
    apply (intro follows_if at follows_forEachM [of R, OF refl trans] add occ app)
    apply (simp_all add: refl push)
    done
  have 2: "follows R s (occursOnLeftInConstraintList (Suc n) s a r)" for s a r
  proof (cases "firstWithName (vars s) (constraints s) (name (vars s ! a))")
    case None
    have "R s (s\<lparr>vars := (vars s)[addr r := (vars s ! addr r)\<lparr>constraint := AddableK\<rparr>]\<rparr>
                 \<lparr>constraints := constraints s @ [(a, r)]\<rparr>)"
      using trans [OF tighten [of s "addr r"] push [of _ "(a, r)"]] by simp
    with None show ?thesis by (simp add: Let_def refl push tighten)
  next
    case (Some c)
    then show ?thesis by (simp add: add)
  qed
  have 3: "follows R s (applyConstraints (Suc n) s t)" for s t
    by (auto simp: refl intro!: at inn add)
  have 4: "follows R s (applyConstraints_inner (Suc n) s t)" for s t
    by (cases t)
       (auto simp: refl split: option.split
             intro!: at follows_mapM [of R, OF refl trans] inn app)
  from 1 2 3 4 show ?case by blast
qed

lemma storeGrows_unifier:
  "follows storeGrows s (addToConstraintList n s l r)"
proof -
  have "(\<forall>s l r. follows storeGrows s (addToConstraintList n s l r)) \<and>
         (\<forall>s a r. follows storeGrows s (occursOnLeftInConstraintList n s a r)) \<and>
         (\<forall>s t. follows storeGrows s (applyConstraints n s t)) \<and>
         (\<forall>s t. follows storeGrows s (applyConstraints_inner n s t))"
    by (rule unifier_follows) (auto simp: storeGrows_def intro: prefix_order.trans)
  then show ?thesis by blast
qed

lemma pair_mismatch_eval:
  "addToConstraintList 10 (exState []) (TPair (TVar 0) tNumber) (TPair tNumber tBool)
     = (exState [(0, tNumber)], Throw (UnifyError tNumber tBool))"
  by (simp add: unifier_defs cong: eval_congs)

section \<open>Claims about the constraint store\<close>

text \<open>
  C1, as the spec states it: a call of \<^verbatim>\<open>addToConstraintList\<close> that fails leaves the store
  with exactly the entries it held. It does not: the array is changed in place and nothing
  rolls it back. Unifying \<open>Pair(T0, number)\<close> with \<open>Pair(number, boolean)\<close> in the empty
  store first solves the heads, appending \<open>T0 = number\<close>, and then fails on the tails with
  a UnifyError; the entry stays.
\<close>

theorem failed_add_changes_store:
  "addToConstraintList 10 (exState []) (TPair (TVar 0) tNumber) (TPair tNumber tBool)
     = (exState [(0, tNumber)], Throw (UnifyError tNumber tBool))
   \<and> constraints (exState [(0, tNumber)]) \<noteq> constraints (exState [])"
  using pair_mismatch_eval by (simp add: exState_def)

text \<open>
  C1, amended: for every call of \<^verbatim>\<open>addToConstraintList\<close> that fails, the store keeps every
  entry it held before the call, in the same order, as a prefix of the store after the
  call; the entries appended by the sub-constraints solved before the failure remain.
\<close>

theorem failed_add_keeps_entries:
  assumes "addToConstraintList n s l r = (s', Throw e)"
  shows "prefix (constraints s) (constraints s')"
  using storeGrows_unifier [of s n l r] assms by (simp add: storeGrows_def)

theorem failed_add_keeps_entries_witness:
  "prefix (constraints (exState [])) (constraints (exState [(0, tNumber)]))"
  using failed_add_keeps_entries [OF pair_mismatch_eval] .


lemma bind_number_eval:
  "addToConstraintList 10 (exState []) (TVar 0) tNumber = (exState [(0, tNumber)], Ok ())"
  by (simp add: unifier_defs cong: eval_congs)

lemma self_list_eval:
  "addToConstraintList 10 (exState [(0, tNumber)]) (TVar 0) (TList (TVar 0))
     = (exState [(0, tNumber), (0, TList (TVar 0))], Ok ())"
  by (simp add: unifier_defs cong: eval_congs)

text \<open>
  The guarded path. When the right side neither is nor contains the variable \<open>v\<close> and
  passes the addable check, adding \<open>v = rhs\<close> applies the store to \<open>rhs\<close> and hands over to
  \<^verbatim>\<open>occursOnLeftInConstraintList\<close>, which scans the array: the first entry with a left
  side of \<open>v\<close>'s name, \<open>(_, t)\<close>, turns the addition into that of the constraint
  \<open>apply(rhs) = t\<close>, and nothing with the left side \<open>v\<close> is appended by that step.
\<close>

lemma first_wins_shortcut:
  assumes "\<not> contains (vars s) rhs (name (vars s ! v))"
      and "\<not> cannotBeResolvedIfAddable (vars s) v rhs"
      and "applyConstraints (Suc n) s rhs = (s1, Ok rhs')"
  shows "addToConstraintList (Suc (Suc n)) s (TVar v) rhs =
     (case firstWithName (vars s1) (constraints s1) (name (vars s1 ! v)) of
        Some c \<Rightarrow> addToConstraintList n s1 rhs' (snd c)
      | None \<Rightarrow> occursOnLeftInConstraintList (Suc n) s1 v rhs')"
proof -
  have nv: "\<not> (isVariable rhs \<and> name (vars s ! addr rhs) = name (vars s ! v))"
    using assms(1) by (cases rhs) auto
  have "addToConstraintList (Suc (Suc n)) s (TVar v) rhs =
          andThen (applyConstraints (Suc n) s rhs)
            (\<lambda>s1 r'. occursOnLeftInConstraintList (Suc n) s1 v r')"
    using assms(1,2) nv
    by (auto simp del: applyConstraints.simps occursOnLeftInConstraintList.simps)
  also have "\<dots> = occursOnLeftInConstraintList (Suc n) s1 v rhs'"
    by (simp only: assms(3) andThen_simps)
  also have "\<dots> = (case firstWithName (vars s1) (constraints s1) (name (vars s1 ! v)) of
        Some c \<Rightarrow> addToConstraintList n s1 rhs' (snd c)
      | None \<Rightarrow> occursOnLeftInConstraintList (Suc n) s1 v rhs')"
    by (cases "firstWithName (vars s1) (constraints s1) (name (vars s1 ! v))") simp_all
  finally show ?thesis .
qed

text \<open>
  C5: along successful calls of \<^verbatim>\<open>addToConstraintList\<close> from the empty store no variable
  is the left side of two entries; a variable that an earlier entry binds is not given a
  second one. \<^verbatim>\<open>occursOnLeftInConstraintList\<close> scans the array before it appends
  (\<open>first_wins_shortcut\<close>), but the self-list case of the occurs check
  (\<^verbatim>\<open>LHS === getListType(RHS)\<close>) pushes \<open>(v, List(v))\<close> without looking for an earlier
  entry of \<open>v\<close>: after \<open>T0 = number\<close>, adding \<open>T0 = List(T0)\<close> succeeds and leaves two
  entries with the left side \<open>T0\<close>.
\<close>

theorem left_side_repeats:
  "addToConstraintList 10 (exState []) (TVar 0) tNumber = (exState [(0, tNumber)], Ok ())
   \<and> addToConstraintList 10 (exState [(0, tNumber)]) (TVar 0) (TList (TVar 0))
       = (exState [(0, tNumber), (0, TList (TVar 0))], Ok ())
   \<and> map fst (constraints (exState [(0, tNumber), (0, TList (TVar 0))])) = [0, 0]"
  using bind_number_eval self_list_eval by (simp add: exState_def)

section \<open>Claims about the unifier's rules\<close>

text \<open>
  C3, as the spec states it: a right side of the shape \<open>Pair(h, Pair(_, v))\<close> that contains
  the left variable \<open>v\<close> is rewritten as \<open>v = List(h)\<close>. The code tests
  \<^verbatim>\<open>LHS === RHS.tailType || LHS === getListType(RHS.tailType)\<close>: the second shape it rescues
  is \<open>Pair(h, List(v))\<close>. For \<open>T0 = Pair(number, Pair(boolean, T0))\<close> it signals a cyclic
  reference.
\<close>

lemma nested_pair_eval:
  "addToConstraintList 10 (exState []) (TVar 0) (TPair tNumber (TPair tBool (TVar 0)))
     = (exState [], Throw (InternalCyclicReferenceError ''T0''))"
  by (simp add: unifier_defs cong: eval_congs)

theorem nested_pair_is_cyclic:
  "contains (vars (exState [])) (TPair tNumber (TPair tBool (TVar 0))) (name (vars (exState []) ! 0))
   \<and> addToConstraintList 10 (exState []) (TVar 0) (TPair tNumber (TPair tBool (TVar 0)))
     = (exState [], Throw (InternalCyclicReferenceError ''T0''))"
  using nested_pair_eval by (simp add: exState_def exVars_def)

text \<open>
  C3, amended: for every addition of a constraint between a variable \<open>v\<close> on the left and
  a term \<open>rhs\<close> that contains \<open>v\<close>: when \<open>rhs\<close> is a variable (of \<open>v\<close>'s name) nothing is
  done; when \<open>rhs\<close> has the shape \<open>Pair(h, v)\<close> or \<open>Pair(h, List(v))\<close>, with \<open>v\<close> the same
  variable object, the constraint is replaced by \<open>v = List(h)\<close> and unification goes on
  with it (and may still fail); when \<open>rhs\<close> is \<open>List(v)\<close> the entry \<open>(v, List(v))\<close> is
  appended; for every other containing shape a CyclicError is signalled and the store is
  left as it is.
\<close>

theorem cyclic_list_rescue:
  assumes "contains (vars s) rhs (name (vars s ! v))"
  shows "addToConstraintList (Suc n) s (TVar v) rhs =
     (if isVariable rhs then (s, Ok ())
      else if isPair rhs \<and> (tailType rhs = TVar v \<or> tailType rhs = TList (TVar v))
        then addToConstraintList n s (TVar v) (TList (headType rhs))
      else if rhs = TList (TVar v) then (s\<lparr>constraints := constraints s @ [(v, rhs)]\<rparr>, Ok ())
      else (s, Throw (InternalCyclicReferenceError (name (vars s ! v)))))"
proof (cases rhs)
  case (TPrimitive p)
  with assms show ?thesis by simp
next
  case (TVar a)
  with assms show ?thesis by simp
next
  case (TFunc ps r)
  with assms show ?thesis by (simp add: getListType_def)
next
  case (TPair h t)
  have "Some (TVar v) = getListType t \<longleftrightarrow> t = TList (TVar v)"
    by (cases t) (auto simp: getListType_def)
  with assms TPair show ?thesis by (simp add: getListType_def eq_commute[of "TVar v"])
next
  case (TList e)
  with assms show ?thesis by (simp add: getListType_def eq_commute[of "TVar v"])
next
  case (TArray e)
  with assms show ?thesis by (simp add: getListType_def)
qed

theorem cyclic_list_rescue_witness:
  "contains (vars (exState [])) (TPair tNumber (TList (TVar 0))) (name (vars (exState []) ! 0))
   \<and> addToConstraintList (Suc 9) (exState []) (TVar 0) (TPair tNumber (TList (TVar 0)))
      = addToConstraintList 9 (exState []) (TVar 0) (TList tNumber)"
proof -
  have h: "contains (vars (exState [])) (TPair tNumber (TList (TVar 0))) (name (vars (exState []) ! 0))"
    by (simp add: exState_def exVars_def)
  show ?thesis
    using h cyclic_list_rescue [OF h, of 9]
    by (simp del: addToConstraintList.simps)
qed

section \<open>Claims about the substitution walker\<close>



section \<open>Claims about the addable kind\<close>

lemma addable_direct:
  assumes "constraint (vars s ! v) = AddableK" "p \<noteq> PNumber" "p \<noteq> PString"
  shows "addToConstraintList (Suc n) s (TVar v) (TPrimitive p)
           = (s, Throw (UnifyError (TVar v) (TPrimitive p)))"
  using assms by (simp add: cannotBeResolvedIfAddable_def)

lemma addable_eval:
  "addToConstraintList 10 (exState [(0, tBool)]) (TVar 2) (TVar 0)
     = (exState [(0, tBool), (2, tBool)], Ok ())"
  by (simp add: unifier_defs cong: eval_congs)

lemma progAddable_eval:
  "outcome (typeCheck 30 (exState []) progAddable) =
     Ok ([],
         [\<lparr>name = ''T0'', constraint = NoneK\<rparr>, \<lparr>name = ''T1'', constraint = NoneK\<rparr>,
          \<lparr>name = ''T2'', constraint = NoneK\<rparr>, \<lparr>name = ''T3'', constraint = NoneK\<rparr>,
          \<lparr>name = ''T4'', constraint = NoneK\<rparr>, \<lparr>name = ''T5'', constraint = NoneK\<rparr>,
          \<lparr>name = ''T6'', constraint = NoneK\<rparr>, \<lparr>name = ''T7'', constraint = NoneK\<rparr>,
          \<lparr>name = ''T8'', constraint = AddableK\<rparr>],
         [(35, TVar 37), (36, tUndef), (39, tBool), (38, TVar 40), (40, tBool), (41, tBool),
          (42, tBool), (43, tBool), (37, tBool)],
         [])"
  by (simp add: eval_defs prog_defs cong: eval_congs)

text \<open>
  C4: unifying an addable variable with a primitive other than number or string signals a
  UnifyError (\<open>addable_direct\<close>), and so no addable variable resolves to boolean or undefined
  in a successful check. The code breaks the second half: \<^verbatim>\<open>cannotBeResolvedIfAddable\<close>
  looks at the right side before the store is applied to it, so a right side that is a
  variable already bound to boolean passes the test and the addable variable is bound to
  boolean. With \<open>T0 = boolean\<close> in the store, adding \<open>A = T0\<close> for the addable \<open>A\<close> succeeds
  and appends \<open>A = boolean\<close>; and \<^verbatim>\<open>typeCheck\<close> accepts
  \<^verbatim>\<open>(true ? true : false) + true;\<close> with no diagnostic, binding the addable variable
  \<^verbatim>\<open>T8\<close> of the operator \<^verbatim>\<open>+\<close> (at address 43) to boolean.
\<close>

theorem addable_bound_to_boolean:
  "constraint (vars (exState [(0, tBool)]) ! 2) = AddableK
   \<and> addToConstraintList 10 (exState [(0, tBool)]) (TVar 2) (TVar 0)
        = (exState [(0, tBool), (2, tBool)], Ok ())
   \<and> outcome (typeCheck 30 (exState []) progAddable) =
     Ok ([],
         [\<lparr>name = ''T0'', constraint = NoneK\<rparr>, \<lparr>name = ''T1'', constraint = NoneK\<rparr>,
          \<lparr>name = ''T2'', constraint = NoneK\<rparr>, \<lparr>name = ''T3'', constraint = NoneK\<rparr>,
          \<lparr>name = ''T4'', constraint = NoneK\<rparr>, \<lparr>name = ''T5'', constraint = NoneK\<rparr>,
          \<lparr>name = ''T6'', constraint = NoneK\<rparr>, \<lparr>name = ''T7'', constraint = NoneK\<rparr>,
          \<lparr>name = ''T8'', constraint = AddableK\<rparr>],
         [(35, TVar 37), (36, tUndef), (39, tBool), (38, TVar 40), (40, tBool), (41, tBool),
          (42, tBool), (43, tBool), (37, tBool)],
         [])"
  using addable_eval progAddable_eval by (simp add: exState_def exVars_def)

section \<open>Claims about arity\<close>

lemma progCall_eval:
  "outcome (typeCheck 30 (exState []) progCall) =
     Ok ([],
         [\<lparr>name = ''T0'', constraint = NoneK\<rparr>, \<lparr>name = ''T1'', constraint = NoneK\<rparr>,
          \<lparr>name = ''T2'', constraint = NoneK\<rparr>, \<lparr>name = ''T3'', constraint = NoneK\<rparr>,
          \<lparr>name = ''T4'', constraint = NoneK\<rparr>, \<lparr>name = ''T5'', constraint = NoneK\<rparr>,
          \<lparr>name = ''T6'', constraint = NoneK\<rparr>, \<lparr>name = ''T7'', constraint = NoneK\<rparr>,
          \<lparr>name = ''T8'', constraint = NoneK\<rparr>, \<lparr>name = ''T9'', constraint = NoneK\<rparr>,
          \<lparr>name = ''T10'', constraint = NoneK\<rparr>, \<lparr>name = ''T11'', constraint = NoneK\<rparr>,
          \<lparr>name = ''T12'', constraint = NoneK\<rparr>, \<lparr>name = ''T13'', constraint = NoneK\<rparr>],
         [(35, TVar 36), (36, tUndef), (37, TFunc [TVar 38] (TVar 39)), (39, TVar 44),
          (40, tUndef), (42, TVar 38), (43, TVar 38), (44, tUndef), (46, TVar 38),
          (47, tNumber), (48, tNumber), (38, TFunc [tNumber, tNumber] (TVar 45))],
         [(1, Some (TFunc [tNumber, tNumber] (TVar 45))),
          (2, Some (TFunc [tNumber, tNumber] (TVar 45)))])"
  by (simp add: eval_defs prog_defs cong: eval_congs)

lemma arity_mismatch:
  assumes "length ps \<noteq> length qs"
  shows "addToConstraintList (Suc n) s (TFunc ps r) (TFunc qs r') =
      (s, Throw (InternalDifferentNumberArgumentsError (length qs) (length ps)))"
  using assms by simp

lemma call_arity_rule:
  assumes "infer n s calleeNode environment False = (s1, Ok ())"
      and "applyType n s1 (typeOf calleeNode) = (s2, Ok calledFunctionType)"
      and "mapM (\<lambda>s' argNode. andThen (infer n s' argNode environment False)
                                 (\<lambda>s'' _. applyType n s'' (typeOf argNode))) s2 argNodes
             = (s3, Ok receivedTypes)"
      and "addTypes n s3 (tFuncOpt (map typeOf argNodes @ [inferredType a])) (typeOf calleeNode)
             = (s4, Throw (InternalDifferentNumberArgumentsError expected received))"
  shows "infer_inner (Suc n) s (CallExpression a calleeNode argNodes) environment isTop
           = (pushError s4 (DifferentNumberArgumentsError (CallExpression a calleeNode argNodes)
                              expected received), Ok ())"
  using assms by (simp add: andThen_simps tryCatch_simps)

text \<open>
  C7: unifying two Function terms whose parameter lists differ in length signals an
  ArityError with both lengths (\<open>arity_mismatch\<close>), which the rule for a call expression
  records as a diagnostic (\<open>call_arity_rule\<close>); so a call expression that passes without
  a diagnostic has as many arguments as the resolved function type of its callee has
  parameters. The handler of the call rule records a UnifyError and an ArityError only and
  drops any other error. In \<^verbatim>\<open>function f(x) { x(x); x(1, 2); }\<close> the unification for
  \<^verbatim>\<open>x(x)\<close> fails with a cyclic reference, an error that the comment in \<^verbatim>\<open>infer\<close> takes
  to arise in function declarations only; nothing is recorded for the call, and the later
  call binds \<^verbatim>\<open>x\<close> to a function of two parameters. The run ends with no diagnostic, and
  the callee of the call with one argument resolves to a function type with two
  parameters.
\<close>

theorem call_arity_disagrees:
  "outcome (typeCheck 30 (exState []) progCall) =
     Ok ([],
         [\<lparr>name = ''T0'', constraint = NoneK\<rparr>, \<lparr>name = ''T1'', constraint = NoneK\<rparr>,
          \<lparr>name = ''T2'', constraint = NoneK\<rparr>, \<lparr>name = ''T3'', constraint = NoneK\<rparr>,
          \<lparr>name = ''T4'', constraint = NoneK\<rparr>, \<lparr>name = ''T5'', constraint = NoneK\<rparr>,
          \<lparr>name = ''T6'', constraint = NoneK\<rparr>, \<lparr>name = ''T7'', constraint = NoneK\<rparr>,
          \<lparr>name = ''T8'', constraint = NoneK\<rparr>, \<lparr>name = ''T9'', constraint = NoneK\<rparr>,
          \<lparr>name = ''T10'', constraint = NoneK\<rparr>, \<lparr>name = ''T11'', constraint = NoneK\<rparr>,
          \<lparr>name = ''T12'', constraint = NoneK\<rparr>, \<lparr>name = ''T13'', constraint = NoneK\<rparr>],
         [(35, TVar 36), (36, tUndef), (37, TFunc [TVar 38] (TVar 39)), (39, TVar 44),
          (40, tUndef), (42, TVar 38), (43, TVar 38), (44, tUndef), (46, TVar 38),
          (47, tNumber), (48, tNumber), (38, TFunc [tNumber, tNumber] (TVar 45))],
         [(1, Some (TFunc [tNumber, tNumber] (TVar 45))),
          (2, Some (TFunc [tNumber, tNumber] (TVar 45)))])"
  by (rule progCall_eval)

section \<open>Claims about the errors \<^verbatim>\<open>typeCheck\<close> throws\<close>

lemma throwsOnly_simps:
  "throwsOnly P (s, Ok x)" "throwsOnly P (s, OutOfFuel)" "throwsOnly P (s, Throw e) = P e"
  by (simp_all add: throwsOnly_def)

lemma throwsOnly_andThen:
  assumes "throwsOnly P m" and "\<And>s x. throwsOnly P (f s x)"
  shows "throwsOnly P (andThen m f)"
proof (cases m)
  case (Pair s r)
  then show ?thesis using assms by (cases r) (simp_all add: andThen_simps throwsOnly_simps)
qed

lemma throwsOnly_mapM:
  assumes "\<And>s x. throwsOnly P (f s x)"
  shows "throwsOnly P (mapM f s xs)"
proof (induction xs arbitrary: s)
  case Nil
  show ?case by (simp add: throwsOnly_simps)
next
  case (Cons x xs)
  show ?case
    by (simp, rule throwsOnly_andThen, rule assms, rule throwsOnly_andThen, rule Cons.IH,
        simp add: throwsOnly_simps)
qed

lemma throwsOnly_mono: "throwsOnly P m \<Longrightarrow> (\<And>e. P e \<Longrightarrow> Q e) \<Longrightarrow> throwsOnly Q m"
  by (auto simp: throwsOnly_def split: result.split)

lemma traverseHead_returns: "throwsOnly (\<lambda>e. False) (traverseHead n resolve s node)"
  by (auto simp: traverseHead_def throwsOnly_def tVarNext_def alloc_def Let_def
           split: prod.split result.split)

lemma traverseFunctionType_returns:
  "throwsOnly (\<lambda>e. False) (traverseFunctionType n resolve s node ft)"
  by (auto simp: traverseFunctionType_def throwsOnly_def alloc_def Let_def
           split: prod.split result.split)

lemma traverse_throws:
  "throwsOnly (\<lambda>e. e = JSPropertyOfUndefined) (traverse n resolve s node)"
proof (induction n arbitrary: s node)
  case 0
  show ?case by (simp add: throwsOnly_simps)
next
  case (Suc n)
  have head: "throwsOnly (\<lambda>e. e = JSPropertyOfUndefined) (traverseHead n resolve s node)"
    by (rule throwsOnly_mono [OF traverseHead_returns]) simp
  have ft: "throwsOnly (\<lambda>e. e = JSPropertyOfUndefined) (traverseFunctionType n resolve s' nd t)"
    for s' nd t
    by (rule throwsOnly_mono [OF traverseFunctionType_returns]) simp
  show ?case
    unfolding traverse.simps
    apply (rule throwsOnly_andThen [OF head])
    subgoal for s1 a'
      by (cases node)
         (auto simp: throwsOnly_simps split: list.split
               intro!: throwsOnly_andThen throwsOnly_mapM Suc.IH ft)
    done
qed

lemma infer_not_cyclic: "throwsOnly (\<lambda>e. \<not> isCyclic e) (infer n s node environment isTop)"
proof (cases n)
  case 0
  then show ?thesis by (simp add: throwsOnly_simps)
next
  case (Suc m)
  obtain s1 r where r: "infer_inner m s node environment isTop = (s1, r)"
    by (cases "infer_inner m s node environment isTop")
  show ?thesis
    by (cases r) (simp_all add: Suc r tryCatch_simps throwsOnly_simps)
qed

lemma typeCheck_not_cyclic: "throwsOnly (\<lambda>e. \<not> isCyclic e) (typeCheck n s program)"
  unfolding typeCheck_def Let_def
  by (intro throwsOnly_andThen throwsOnly_mono [OF traverse_throws] infer_not_cyclic)
     (simp_all add: throwsOnly_simps)

lemma member_rule:
  assumes "infer n s property environment False = (s1, Ok ())"
      and "typeMap environment (nodeName obj) = Some (Mono t)"
      and "applyConstraints n s1 t = (s2, Ok arrayType)"
      and "\<not> isArray arrayType"
  shows "infer (Suc (Suc n)) s (MemberExpression a obj property) environment isTop
           = (s2, Throw (InternalTypeError (nodeName obj) arrayType))"
  using assms by (simp add: andThen_simps tryCatch_simps)

lemma progMember_eval:
  "snd (typeCheck 30 (exState []) progMember) = Throw (InternalTypeError (Some ''x'') tNumber)"
  by (simp add: eval_defs prog_defs cong: eval_congs)

lemma progLate_eval:
  "snd (typeCheck 30 (exState []) progLate) = Throw (UnifyError (TVar 44) tBool)"
  by (simp add: eval_defs prog_defs cong: eval_congs)

lemma progArity_eval:
  "snd (typeCheck 30 (exState []) progArity) = Throw (InternalDifferentNumberArgumentsError 1 2)"
  by (simp add: eval_defs prog_defs cong: eval_congs)

text \<open>
  C2: \<^verbatim>\<open>typeCheck\<close> returns normally when the only faults of the program are type errors
  of the user, every UnifyError, ArityError and CyclicError being caught and turned into
  a diagnostic. A CyclicError never reaches the caller (\<open>typeCheck_not_cyclic\<close>), and the
  rules for operators, calls, conditionals, loops, assignments and arrays catch the
  UnifyError of their own unification. The rules for literals, identifiers, return
  statements and declarations call the unifier outside any handler, and \<^verbatim>\<open>infer\<close>
  rethrows whatever is not a cyclic reference, so \<^verbatim>\<open>typeCheck\<close> throws on well-formed
  programs whose only fault is a type error. In
  \<^verbatim>\<open>function f() { return x + x; } const x = true;\<close> the use of \<^verbatim>\<open>x\<close> under \<^verbatim>\<open>+\<close>
  makes the variable of its initialiser addable, the rule for literals unifies it with
  boolean, and the UnifyError reaches the caller. In
  \<^verbatim>\<open>function g() { return f(1); } function f(x, y) { return x; }\<close> the call binds the
  variable of \<^verbatim>\<open>f\<close> to a function of one parameter, the rule for function declarations
  unifies it with the declared type of two, and the ArityError reaches the caller. (On
  \<^verbatim>\<open>const x = 1; x[0];\<close> the \<^verbatim>\<open>InternalTypeError\<close> of the rule for member expressions
  reaches the caller in the same way, \<open>progMember_eval\<close>.)
\<close>

theorem user_type_error_escapes:
  "snd (typeCheck 30 (exState []) progLate) = Throw (UnifyError (TVar 44) tBool)
   \<and> snd (typeCheck 30 (exState []) progArity) = Throw (InternalDifferentNumberArgumentsError 1 2)"
  using progLate_eval progArity_eval by (rule conjI)

section \<open>Claims about determinism\<close>

lemma reset_state:
  "s\<lparr>vars := a, constraints := b, typeIdCounter := c, typeErrors := d\<rparr>
     = \<lparr>vars = a, constraints = b, typeIdCounter = c, typeErrors = d\<rparr>"
  by (cases s) simp

text \<open>
  C8: two invocations of \<^verbatim>\<open>typeCheck\<close> on the same program give the same result, whatever
  the module state each starts from (the counter, the diagnostics and the constraint
  array left by an earlier run): the counter is reset to zero and the diagnostics are
  emptied on entry, so the variable names, the annotations of the returned program and the
  diagnostic list are identical.
\<close>

theorem typeCheck_deterministic: "typeCheck n s program = typeCheck n s' program"
  by (simp add: typeCheck_def reset_state)

section \<open>Claims about the resolution pass\<close>

lemma unifier_keeps_errors:
  "follows (\<lambda>s s'. typeErrors s' = typeErrors s) s (applyConstraints n s t)"
proof -
  have "(\<forall>s l r. follows (\<lambda>s s'. typeErrors s' = typeErrors s) s (addToConstraintList n s l r)) \<and>
         (\<forall>s a r. follows (\<lambda>s s'. typeErrors s' = typeErrors s) s (occursOnLeftInConstraintList n s a r)) \<and>
         (\<forall>s t. follows (\<lambda>s s'. typeErrors s' = typeErrors s) s (applyConstraints n s t)) \<and>
         (\<forall>s t. follows (\<lambda>s s'. typeErrors s' = typeErrors s) s (applyConstraints_inner n s t))"
    by (rule unifier_follows) simp_all
  then show ?thesis by blast
qed

lemma applyType_keeps_errors:
  assumes "applyType n s t = (s1, r)"
  shows "typeErrors s1 = typeErrors s"
proof (cases t)
  case None
  with assms show ?thesis by (simp add: applyType_def)
next
  case (Some t')
  with assms unifier_keeps_errors [of s n t'] show ?thesis
    by (simp add: applyType_def follows_def)
qed

lemma recordsOnly_refl: "recordsOnly P s s"
  by (simp add: recordsOnly_def)

lemma recordsOnly_iff:
  "recordsOnly P s s' \<longleftrightarrow> (\<exists>ds. typeErrors s' = typeErrors s @ ds \<and> list_all P ds)"
  by (auto simp: recordsOnly_def prefix_def)

lemma recordsOnly_trans: "recordsOnly P a b \<Longrightarrow> recordsOnly P b c \<Longrightarrow> recordsOnly P a c"
  by (auto simp: recordsOnly_iff)

lemma recordsOnly_same: "typeErrors s' = typeErrors s \<Longrightarrow> recordsOnly P s s'"
  by (simp add: recordsOnly_def)

lemma recordsOnly_push: "P d \<Longrightarrow> recordsOnly P s (pushError s d)"
  by (simp add: recordsOnly_iff pushError_def)

lemma recordsOnly_applyType: "follows (recordsOnly P) s (applyType n s t)"
proof -
  obtain s1 r where h: "applyType n s t = (s1, r)" by (cases "applyType n s t")
  from applyType_keeps_errors [OF h] show ?thesis by (simp add: h recordsOnly_same)
qed

lemma traverseHead_head:
  assumes "typability (annotOf node) \<noteq> Untypable"
      and "applyType n s (typeOf node) = (s1, Throw (InternalCyclicReferenceError nm))"
  shows "traverseHead n True s node = (s1, Ok (annotOf node)) \<and> typeErrors s1 = typeErrors s"
  using assms applyType_keeps_errors [OF assms(2)] by (simp add: traverseHead_def)

lemma traverseFunctionType_cyclic:
  assumes "applyType n s ft = (s1, Throw (InternalCyclicReferenceError nm))"
  shows "traverseFunctionType n True s node ft =
           ((pushError s1 (CyclicReferenceError node))
              \<lparr>typeIdCounter := typeIdCounter (pushError s1 (CyclicReferenceError node)) + 1\<rparr>, Ok ft)"
  using assms by (simp add: traverseFunctionType_def)

lemma traverseHead_records:
  "follows (recordsOnly cyclicOnlyForFunctions) s (traverseHead n resolve s node)"
proof (cases "resolve \<and> typability (annotOf node) \<noteq> Untypable")
  case True
  obtain s1 r where h: "applyType n s (typeOf node) = (s1, r)"
    by (cases "applyType n s (typeOf node)")
  have e: "typeErrors s1 = typeErrors s" by (rule applyType_keeps_errors [OF h])
  show ?thesis
    using True h e
    by (cases r) (auto simp: traverseHead_def recordsOnly_iff pushError_def)
next
  case False
  then show ?thesis
    by (auto simp: traverseHead_def tVarNext_def alloc_def Let_def recordsOnly_iff)
qed

lemma traverseFunctionType_records:
  "follows (recordsOnly cyclicOnlyForFunctions) s
     (traverseFunctionType n resolve s (FunctionDeclaration a ft nm ps b) ft')"
proof (cases resolve)
  case True
  obtain s1 r where h: "applyType n s ft' = (s1, r)"
    by (cases "applyType n s ft'")
  have e: "typeErrors s1 = typeErrors s" by (rule applyType_keeps_errors [OF h])
  show ?thesis
    using True h e
    by (cases r) (auto simp: traverseFunctionType_def recordsOnly_iff pushError_def)
next
  case False
  then show ?thesis
    by (auto simp: traverseFunctionType_def alloc_def Let_def recordsOnly_iff)
qed

lemma records_andThen:
  assumes "follows (recordsOnly P) s m" and "\<And>s1 x. follows (recordsOnly P) s1 (f s1 x)"
  shows "follows (recordsOnly P) s (andThen m f)"
  by (rule follows_andThen [where R = "recordsOnly P"]) (auto intro: recordsOnly_trans assms)

lemma records_mapM:
  assumes "\<And>s1 x. follows (recordsOnly P) s1 (f s1 x)"
  shows "follows (recordsOnly P) s (mapM f s xs)"
  by (rule follows_mapM [where R = "recordsOnly P"])
     (auto intro: recordsOnly_trans recordsOnly_refl assms)

lemma traverse_records:
  "follows (recordsOnly cyclicOnlyForFunctions) s (traverse n resolve s node)"
proof (induction n arbitrary: s node)
  case 0
  show ?case by (simp add: recordsOnly_refl)
next
  case (Suc n)
  note at = records_andThen [of cyclicOnlyForFunctions]
  note mm = records_mapM [of cyclicOnlyForFunctions]
  show ?case
    unfolding traverse.simps
    apply (rule at [OF traverseHead_records])
    subgoal for s1 a'
      by (cases node)
         (auto simp: recordsOnly_refl split: list.split
               intro!: at mm Suc.IH traverseFunctionType_records)
    done
qed

text \<open>
  C9: in the resolution pass, when applying the store to the \<^verbatim>\<open>inferredType\<close> of a node
  that is not \<^verbatim>\<open>Untypable\<close> raises a CyclicError, the node's annotation stays as it is
  (the type before the substitution, the typability it had, so \<^verbatim>\<open>NotYetTyped\<close> stays
  \<^verbatim>\<open>NotYetTyped\<close>) and no diagnostic is recorded; when applying the store to the
  \<^verbatim>\<open>functionInferredType\<close> of a function declaration raises a CyclicError, a
  CyclicReference diagnostic for the node is recorded; and every CyclicReference
  diagnostic that \<^verbatim>\<open>traverse\<close> records is for a function declaration.
\<close>

theorem cyclic_resolution:
  "(typability (annotOf node) \<noteq> Untypable
      \<and> applyType n s (typeOf node) = (s1, Throw (InternalCyclicReferenceError nm))
      \<longrightarrow> traverseHead n True s node = (s1, Ok (annotOf node)) \<and> typeErrors s1 = typeErrors s)
   \<and> (applyType n s ft = (s1, Throw (InternalCyclicReferenceError nm))
      \<longrightarrow> traverseFunctionType n True s node ft =
           ((pushError s1 (CyclicReferenceError node))
              \<lparr>typeIdCounter := typeIdCounter (pushError s1 (CyclicReferenceError node)) + 1\<rparr>, Ok ft))
   \<and> recordsOnly cyclicOnlyForFunctions s (fst (traverse n resolve s node))"
  using traverseHead_head [of node n s s1 nm] traverseFunctionType_cyclic [of n s ft s1 nm node]
        traverse_records [of s n resolve node]
  by (simp add: follows_def)

theorem cyclic_resolution_witness:
  "typability (annotOf (Identifier (decorated 0) ''x'')) \<noteq> Untypable
   \<and> applyType 8 (exState [(0, TFunc [TVar 0] tNumber)]) (typeOf (Identifier (decorated 0) ''x''))
       = (exState [(0, TFunc [TVar 0] tNumber)], Throw (InternalCyclicReferenceError ''T0''))
   \<and> traverseHead 8 True (exState [(0, TFunc [TVar 0] tNumber)]) (Identifier (decorated 0) ''x'')
       = (exState [(0, TFunc [TVar 0] tNumber)], Ok (decorated 0))
   \<and> traverseFunctionType 8 True (exState [(0, TFunc [TVar 0] tNumber)])
        (FunctionDeclaration (decorated 1) (Some (TVar 0)) (Some ''f'') [] (BlockStatement ua []))
        (Some (TVar 0))
       = ((pushError (exState [(0, TFunc [TVar 0] tNumber)])
            (CyclicReferenceError
               (FunctionDeclaration (decorated 1) (Some (TVar 0)) (Some ''f'') [] (BlockStatement ua []))))
            \<lparr>typeIdCounter := 3\<rparr>, Ok (Some (TVar 0)))"
proof -
  let ?s = "exState [(0, TFunc [TVar 0] tNumber)]"
  let ?f = "FunctionDeclaration (decorated 1) (Some (TVar 0)) (Some ''f'') [] (BlockStatement ua [])"
  have h1: "typability (annotOf (Identifier (decorated 0) ''x'')) \<noteq> Untypable"
    by (simp add: decorated_def)
  have h2: "applyType 8 ?s (typeOf (Identifier (decorated 0) ''x''))
       = (?s, Throw (InternalCyclicReferenceError ''T0''))"
    by (simp add: eval_defs prog_defs cong: eval_congs)
  have h3: "applyType 8 ?s (Some (TVar 0)) = (?s, Throw (InternalCyclicReferenceError ''T0''))"
    by (simp add: eval_defs prog_defs cong: eval_congs)
  from cyclic_resolution [where node = "Identifier (decorated 0) ''x''" and n = 8 and s = ?s
      and ?s1.0 = ?s and nm = "''T0''" and ft = "Some (TVar 0)"] h1 h2 h3
  have c1: "traverseHead 8 True ?s (Identifier (decorated 0) ''x'')
       = (?s, Ok (annotOf (Identifier (decorated 0) ''x'')))"
    by (simp add: typeOf_def)
  from cyclic_resolution [where node = ?f and n = 8 and s = ?s
      and ?s1.0 = ?s and nm = "''T0''" and ft = "Some (TVar 0)"] h3
  have c2: "traverseFunctionType 8 True ?s ?f (Some (TVar 0))
       = ((pushError ?s (CyclicReferenceError ?f))
            \<lparr>typeIdCounter := typeIdCounter (pushError ?s (CyclicReferenceError ?f)) + 1\<rparr>,
          Ok (Some (TVar 0)))"
    by blast
  show ?thesis using h1 h2 c1 c2 by (simp add: pushError_def exState_def)
qed

section \<open>Claims about variable declarations\<close>



lemma progTwo_eval:
  "outcome (typeCheck 30 (exState []) progTwo) =
     Ok ([UndefinedIdentifierError (Identifier (decorated 39) ''y'') ''y''],
         [\<lparr>name = ''T0'', constraint = NoneK\<rparr>, \<lparr>name = ''T1'', constraint = NoneK\<rparr>,
          \<lparr>name = ''T2'', constraint = NoneK\<rparr>, \<lparr>name = ''T3'', constraint = NoneK\<rparr>,
          \<lparr>name = ''T4'', constraint = NoneK\<rparr>],
         [(35, TVar 39), (36, tUndef), (37, tNumber), (38, tUndef)],
         [])"
  by (simp add: eval_defs prog_defs cong: eval_congs)





end
